theory Spec2Isabelle
  imports Main
begin

section \<open>JavaScript values and exceptions\<close>

text \<open>
  The services receive their request bodies as \<^verbatim>\<open>dto: any\<close>, so a request field is a
  JavaScript value. Numbers are restricted to integers (no NaN, no fractions); \<open>JDate v\<close>
  is the object built by \<^verbatim>\<open>new Date(v)\<close>.
\<close>

datatype jsval = JUndefined | JNull | JBool bool | JNum int | JStr string | JDate jsval

text \<open>The truthiness test of \<^verbatim>\<open>if (v)\<close>, \<^verbatim>\<open>!v\<close>, \<^verbatim>\<open>v || w\<close> and \<^verbatim>\<open>v ? a : b\<close>.\<close>

fun truthy :: "jsval \<Rightarrow> bool" where
  "truthy JUndefined = False"
| "truthy JNull = False"
| "truthy (JBool b) = b"
| "truthy (JNum n) = (n \<noteq> 0)"
| "truthy (JStr s) = (s \<noteq> [])"
| "truthy (JDate v) = True"

definition js_or :: "jsval \<Rightarrow> jsval \<Rightarrow> jsval" where
  "js_or a b = (if truthy a then a else b)"

text \<open>
  What a call can throw. A store error carries its code and the \<^verbatim>\<open>meta.target\<close> list;
  \<open>PrismaClientValidationError\<close> and \<open>TypeError\<close> carry no \<^verbatim>\<open>code\<close> property.
\<close>

datatype exn =
    BadRequestException string
  | NotFoundException string
  | UnauthorizedException string
  | PrismaClientKnownRequestError string "string list"
  | PrismaClientValidationError
  | TypeError
  | Error string

fun error_code :: "exn \<Rightarrow> string option" where
  "error_code (PrismaClientKnownRequestError c t) = Some c"
| "error_code e = None"

fun is_BadRequestException :: "exn \<Rightarrow> bool" where
  "is_BadRequestException (BadRequestException m) = True"
| "is_BadRequestException e = False"

section \<open>Data model\<close>

datatype RepairTicketStatus = PENDING | IN_PROGRESS | WAITING_PARTS | COMPLETED | CANCELLED

datatype Role = USER | ADMIN

record user =
  u_id :: int
  u_name :: string
  u_email :: string
  u_password :: string
  u_role :: Role
  u_department :: "string option"
  u_phoneNumber :: "string option"
  u_lineId :: "string option"
  u_createdAt :: nat

record lineOALink =
  l_userId :: int
  l_lineUserId :: string
  l_status :: string

text \<open>
  A ticket row. The columns that \<^verbatim>\<open>create\<close> and \<^verbatim>\<open>update\<close> fill from the untyped request
  hold JavaScript values; the key, the owner reference, the code and the status enum are
  typed.
\<close>

record ticket =
  tk_id :: int
  tk_ticketCode :: string
  tk_reporterName :: jsval
  tk_reporterDepartment :: jsval
  tk_reporterPhone :: jsval
  tk_reporterLineId :: jsval
  tk_problemCategory :: jsval
  tk_problemTitle :: jsval
  tk_problemDescription :: jsval
  tk_location :: jsval
  tk_urgency :: jsval
  tk_status :: RepairTicketStatus
  tk_userId :: int
  tk_notes :: jsval
  tk_scheduledAt :: jsval
  tk_completedAt :: jsval
  tk_cancelledAt :: jsval
  tk_createdAt :: nat

record attachment =
  at_repairTicketId :: int
  at_filename :: string
  at_fileUrl :: string
  at_fileSize :: nat
  at_mimeType :: string

record assignee =
  as_repairTicketId :: int
  as_userId :: int

text \<open>
  Modelled from the spec: the relational store (the Prisma schema and client) is not among
  the sources. It is the five tables of the data model, each a list of rows in insertion
  order, and the two auto-increment counters of the tables whose ids the services read.
\<close>

record db =
  users :: "user list"
  lineOALinks :: "lineOALink list"
  repairTickets :: "ticket list"
  attachments :: "attachment list"
  repairTicketAssignees :: "assignee list"
  nextUserId :: int
  nextTicketId :: int

section \<open>Ticket service: getStatistics\<close>

text \<open>
  Modelled from the spec: \<^verbatim>\<open>repairTicket.groupBy({by: ['status'], _count: {status: true}})\<close>
  "groups tickets by status": one group for each status some ticket has, with the number of
  its tickets.
\<close>

definition repairTicket_groupBy_status :: "db \<Rightarrow> (RepairTicketStatus \<times> nat) list" where
  "repairTicket_groupBy_status st =
     map (\<lambda>s. (s, length (filter (\<lambda>t. tk_status t = s) (repairTickets st))))
       (remdups (map tk_status (repairTickets st)))"

record statistics =
  total :: nat
  pending :: nat
  inProgress :: nat
  waitingParts :: nat
  completed :: nat
  cancelled :: nat

text \<open>\<^verbatim>\<open>stats.find(s => s.status === status)?._count.status || 0\<close>\<close>

definition getCount :: "(RepairTicketStatus \<times> nat) list \<Rightarrow> RepairTicketStatus \<Rightarrow> nat" where
  "getCount stats status =
     (case find (\<lambda>s. fst s = status) stats of
        None \<Rightarrow> 0
      | Some s \<Rightarrow> (if snd s \<noteq> 0 then snd s else 0))"

definition getStatistics :: "db \<Rightarrow> statistics" where
  "getStatistics st =
     (let stats = repairTicket_groupBy_status st;
          total = foldl (\<lambda>acc curr. acc + snd curr) 0 stats
      in \<lparr> total = total,
           pending = getCount stats PENDING,
           inProgress = getCount stats IN_PROGRESS,
           waitingParts = getCount stats WAITING_PARTS,
           completed = getCount stats COMPLETED,
           cancelled = getCount stats CANCELLED \<rparr>)"

text \<open>The result field that \<^verbatim>\<open>getStatistics\<close> fills for a status.\<close>

fun status_count :: "statistics \<Rightarrow> RepairTicketStatus \<Rightarrow> nat" where
  "status_count r PENDING = pending r"
| "status_count r IN_PROGRESS = inProgress r"
| "status_count r WAITING_PARTS = waitingParts r"
| "status_count r COMPLETED = completed r"
| "status_count r CANCELLED = cancelled r"

section \<open>Ticket service: create\<close>

text \<open>
  The decimal digits of a number, as a template string \<^verbatim>\<open>`${n}`\<close> renders it: the
  digits are peeled off from the right and collected in front of \<open>digits\<close>.
\<close>

definition digit_char :: "nat \<Rightarrow> char" where
  "digit_char d = ''0123456789'' ! d"

fun decimal_onto :: "nat \<Rightarrow> string \<Rightarrow> string" where
  "decimal_onto n digits =
     (if 10 \<le> n then decimal_onto (n div 10) (digit_char (n mod 10) # digits)
      else digit_char n # digits)"

definition decimal :: "nat \<Rightarrow> string" where
  "decimal n = decimal_onto n []"

definition decimal_int :: "int \<Rightarrow> string" where
  "decimal_int i = (if 0 \<le> i then decimal (nat i) else CHR ''-'' # decimal (nat (- i)))"

definition ALLOWED_MIME_TYPES :: "string list" where
  "ALLOWED_MIME_TYPES = [''image/jpeg'', ''image/png'', ''image/gif'', ''image/webp'']"

definition MAX_FILE_SIZE :: nat where
  "MAX_FILE_SIZE = 5 * 1024 * 1024"

text \<open>An uploaded file as the multipart middleware hands it over.\<close>

record multer_file =
  f_originalname :: string
  f_mimetype :: string
  f_size :: nat
  f_buffer :: string

text \<open>
  \<^verbatim>\<open>path.basename\<close> with the POSIX separator: trailing slashes are dropped, then the part
  after the last slash is kept.
\<close>

definition basename :: "string \<Rightarrow> string" where
  "basename p =
     rev (takeWhile (\<lambda>c. c \<noteq> CHR ''/'') (dropWhile (\<lambda>c. c = CHR ''/'') (rev p)))"

text \<open>
  \<^verbatim>\<open>basename.replace(/[^a-zA-Z0-9.-]/g, '_')\<close>. The replacement goes character by
  character; a \<open>char\<close> stands for one code unit of the JavaScript string, so the model
  covers the names whose code units are below 256.
\<close>

definition sanitizeFilename :: "string \<Rightarrow> string" where
  "sanitizeFilename filename =
     map (\<lambda>c. if c \<in> set (''abcdefghijklmnopqrstuvwxyz'' @ ''ABCDEFGHIJKLMNOPQRSTUVWXYZ''
                              @ ''0123456789'' @ ''.-'')
               then c else CHR ''_'')
       (basename filename)"

text \<open>One element of \<^verbatim>\<open>attachmentData\<close>.\<close>

record attachment_data =
  ad_filename :: string
  ad_fileUrl :: string
  ad_fileSize :: nat
  ad_mimeType :: string

text \<open>
  The external object storage, \<^verbatim>\<open>cloudinaryService.uploadFile(buffer, name, folder)\<close>: it
  returns the url of the stored file or throws.
\<close>

type_synonym uploader = "string \<Rightarrow> string \<Rightarrow> string \<Rightarrow> exn + string"

text \<open>
  The file validation of the loop body: the first check that fails decides the exception.
\<close>

definition validate_file :: "multer_file \<Rightarrow> exn option" where
  "validate_file f =
     (if f_mimetype f \<notin> set ALLOWED_MIME_TYPES
      then Some (BadRequestException
                   (''Invalid file type: '' @ f_mimetype f @ ''. Only images are allowed.''))
      else if f_size f > MAX_FILE_SIZE
      then Some (BadRequestException ''File size exceeds 5MB limit'')
      else None)"

text \<open>The upload call of the loop body for a file.\<close>

definition upload_of :: "uploader \<Rightarrow> multer_file \<Rightarrow> exn + string" where
  "upload_of uploadFile f =
     uploadFile (f_buffer f) (sanitizeFilename (f_originalname f)) ''repairs''"

text \<open>
  The loop \<^verbatim>\<open>for (const file of files) { try { ... } catch (error) { ... } }\<close> with
  \<^verbatim>\<open>attachmentData\<close> as accumulator. The catch block throws a \<open>BadRequestException\<close>
  again, whether a validation or the upload raised it, and goes on to the next file after
  any other exception.
\<close>

fun upload_files :: "uploader \<Rightarrow> multer_file list \<Rightarrow> attachment_data list \<Rightarrow> exn + attachment_data list" where
  "upload_files uploadFile [] attachmentData = Inr attachmentData"
| "upload_files uploadFile (f # files) attachmentData =
     (case validate_file f of
        Some error \<Rightarrow> Inl error
      | None \<Rightarrow>
          (case upload_of uploadFile f of
             Inl error \<Rightarrow>
               if is_BadRequestException error then Inl error
               else upload_files uploadFile files attachmentData
           | Inr url \<Rightarrow>
               upload_files uploadFile files
                 (attachmentData @
                    [\<lparr> ad_filename = sanitizeFilename (f_originalname f), ad_fileUrl = url,
                       ad_fileSize = f_size f, ad_mimeType = f_mimetype f \<rparr>])))"

text \<open>
  Of a file: it passes the validation; its upload call returns; its upload call throws
  an exception that the catch block throws again.
\<close>

definition valid_file :: "multer_file \<Rightarrow> bool" where
  "valid_file f = (validate_file f = None)"

definition uploaded :: "uploader \<Rightarrow> multer_file \<Rightarrow> bool" where
  "uploaded uploadFile f = (case upload_of uploadFile f of Inl error \<Rightarrow> False | Inr url \<Rightarrow> True)"

definition upload_rethrown :: "uploader \<Rightarrow> multer_file \<Rightarrow> bool" where
  "upload_rethrown uploadFile f =
     (case upload_of uploadFile f of
        Inl error \<Rightarrow> is_BadRequestException error
      | Inr url \<Rightarrow> False)"

text \<open>The files of a call: none when the argument is omitted.\<close>

definition file_list :: "multer_file list option \<Rightarrow> multer_file list" where
  "file_list files = (case files of None \<Rightarrow> [] | Some fs \<Rightarrow> fs)"

text \<open>The fields of the request body that \<^verbatim>\<open>create\<close> reads.\<close>

record create_dto =
  cd_reporterName :: jsval
  cd_reporterDepartment :: jsval
  cd_reporterPhone :: jsval
  cd_reporterLineId :: jsval
  cd_problemCategory :: jsval
  cd_problemTitle :: jsval
  cd_problemDescription :: jsval
  cd_location :: jsval
  cd_urgency :: jsval
  cd_notes :: jsval
  cd_scheduledAt :: jsval

text \<open>The \<^verbatim>\<open>data\<close> object of \<^verbatim>\<open>repairTicket.create\<close>.\<close>

record ticket_data =
  td_ticketCode :: string
  td_reporterName :: jsval
  td_reporterDepartment :: jsval
  td_reporterPhone :: jsval
  td_reporterLineId :: jsval
  td_problemCategory :: jsval
  td_problemTitle :: jsval
  td_problemDescription :: jsval
  td_location :: jsval
  td_urgency :: jsval
  td_userId :: int
  td_notes :: jsval
  td_scheduledAt :: jsval
  td_attachments :: "attachment_data list"

text \<open>
  Modelled from the spec: \<^verbatim>\<open>repairTicket.create\<close> of the missing store "persists the ticket
  with nested attachment rows in one write". The row gets the next id, the initial status
  \<open>PENDING\<close>, empty completion and cancellation stamps and the write time as creation
  time. The owner is a reference to a user (a missing one is the foreign-key violation
  \<^verbatim>\<open>P2003\<close>) and the code identifies the ticket in \<^verbatim>\<open>findByCode\<close> (a second ticket with the
  same code is the unique violation \<^verbatim>\<open>P2002\<close>); a rejected write changes nothing.
\<close>

definition repairTicket_create :: "nat \<Rightarrow> ticket_data \<Rightarrow> db \<Rightarrow> (exn + ticket) \<times> db" where
  "repairTicket_create now d st =
     (if td_userId d \<notin> set (map u_id (users st))
      then (Inl (PrismaClientKnownRequestError ''P2003'' []), st)
      else if td_ticketCode d \<in> set (map tk_ticketCode (repairTickets st))
      then (Inl (PrismaClientKnownRequestError ''P2002'' [''ticketCode'']), st)
      else
        (let t = \<lparr> tk_id = nextTicketId st,
                   tk_ticketCode = td_ticketCode d,
                   tk_reporterName = td_reporterName d,
                   tk_reporterDepartment = td_reporterDepartment d,
                   tk_reporterPhone = td_reporterPhone d,
                   tk_reporterLineId = td_reporterLineId d,
                   tk_problemCategory = td_problemCategory d,
                   tk_problemTitle = td_problemTitle d,
                   tk_problemDescription = td_problemDescription d,
                   tk_location = td_location d,
                   tk_urgency = td_urgency d,
                   tk_status = PENDING,
                   tk_userId = td_userId d,
                   tk_notes = td_notes d,
                   tk_scheduledAt = td_scheduledAt d,
                   tk_completedAt = JNull,
                   tk_cancelledAt = JNull,
                   tk_createdAt = now \<rparr>
         in (Inr t,
             st\<lparr> repairTickets := repairTickets st @ [t],
                 attachments := attachments st @
                   map (\<lambda>a. \<lparr> at_repairTicketId = nextTicketId st, at_filename = ad_filename a,
                               at_fileUrl = ad_fileUrl a, at_fileSize = ad_fileSize a,
                               at_mimeType = ad_mimeType a \<rparr>) (td_attachments d),
                 nextTicketId := nextTicketId st + 1 \<rparr>)))"

text \<open>
  \<^verbatim>\<open>create(userId, dto, files)\<close>. \<open>now0\<close> is the clock reading \<^verbatim>\<open>Date.now()\<close> at entry,
  \<open>now\<close> the reading of \<^verbatim>\<open>new Date()\<close> when the row is written; \<open>files\<close> is \<open>None\<close>
  when the argument is omitted.
\<close>

definition create ::
  "uploader \<Rightarrow> nat \<Rightarrow> nat \<Rightarrow> db \<Rightarrow> int \<Rightarrow> create_dto \<Rightarrow> multer_file list option \<Rightarrow> (exn + ticket) \<times> db" where
  "create uploadFile now0 now st userId dto files =
     (let ticketCode = ''REP-'' @ decimal now0 in
      case (case files of
              None \<Rightarrow> Inr []
            | Some fs \<Rightarrow> if length fs > 0 then upload_files uploadFile fs [] else Inr []) of
        Inl error \<Rightarrow> (Inl error, st)
      | Inr attachmentData \<Rightarrow>
          repairTicket_create now
            \<lparr> td_ticketCode = ticketCode,
              td_reporterName = cd_reporterName dto,
              td_reporterDepartment = js_or (cd_reporterDepartment dto) JNull,
              td_reporterPhone = js_or (cd_reporterPhone dto) JNull,
              td_reporterLineId = js_or (cd_reporterLineId dto) JNull,
              td_problemCategory = cd_problemCategory dto,
              td_problemTitle = cd_problemTitle dto,
              td_problemDescription = js_or (cd_problemDescription dto) JNull,
              td_location = cd_location dto,
              td_urgency = js_or (cd_urgency dto) (JStr ''NORMAL''),
              td_userId = userId,
              td_notes = js_or (cd_notes dto) JNull,
              td_scheduledAt = (if truthy (cd_scheduledAt dto) then JDate (cd_scheduledAt dto)
                                else JDate (JNum (int now))),
              td_attachments = attachmentData \<rparr>
            st)"

text \<open>The attachment rows of a ticket.\<close>

definition attachments_of :: "db \<Rightarrow> int \<Rightarrow> attachment list" where
  "attachments_of st ticketId = filter (\<lambda>a. at_repairTicketId a = ticketId) (attachments st)"

section \<open>Ticket service: update\<close>

text \<open>
  \<^verbatim>\<open>assigneeIds\<close> is declared an optional array of numbers: the field is absent, or it
  is \<^verbatim>\<open>null\<close> (which the optional marker lets through), or it is a list of user ids.
\<close>

datatype assigneeIds = IdsUndefined | IdsNull | IdsArray "int list"

text \<open>The fields of the request body that \<^verbatim>\<open>update\<close> reads.\<close>

record update_dto =
  ud_status :: jsval
  ud_notes :: jsval
  ud_scheduledAt :: jsval
  ud_completedAt :: jsval
  ud_problemTitle :: jsval
  ud_problemDescription :: jsval
  ud_location :: jsval
  ud_urgency :: jsval
  ud_assigneeIds :: assigneeIds

text \<open>The object \<^verbatim>\<open>updateData\<close>: \<open>None\<close> is a key that was never assigned.\<close>

record update_data =
  upd_status :: "jsval option"
  upd_notes :: "jsval option"
  upd_scheduledAt :: "jsval option"
  upd_completedAt :: "jsval option"
  upd_problemTitle :: "jsval option"
  upd_problemDescription :: "jsval option"
  upd_location :: "jsval option"
  upd_urgency :: "jsval option"

definition build_updateData :: "update_dto \<Rightarrow> update_data" where
  "build_updateData dto =
     \<lparr> upd_status = (if ud_status dto \<noteq> JUndefined then Some (ud_status dto) else None),
       upd_notes = (if ud_notes dto \<noteq> JUndefined then Some (ud_notes dto) else None),
       upd_scheduledAt =
         (if truthy (ud_scheduledAt dto) then Some (JDate (ud_scheduledAt dto)) else None),
       upd_completedAt =
         (if truthy (ud_completedAt dto) then Some (JDate (ud_completedAt dto)) else None),
       upd_problemTitle =
         (if ud_problemTitle dto \<noteq> JUndefined then Some (ud_problemTitle dto) else None),
       upd_problemDescription =
         (if ud_problemDescription dto \<noteq> JUndefined then Some (ud_problemDescription dto)
          else None),
       upd_location = (if ud_location dto \<noteq> JUndefined then Some (ud_location dto) else None),
       upd_urgency = (if ud_urgency dto \<noteq> JUndefined then Some (ud_urgency dto) else None) \<rparr>"

text \<open>
  Modelled from the spec: the status column of the missing store is the enum of the data
  model. This is the value of the enum that a JavaScript value names, if any.
\<close>

definition status_of_jsval :: "jsval \<Rightarrow> RepairTicketStatus option" where
  "status_of_jsval v =
     (if v = JStr ''PENDING'' then Some PENDING
      else if v = JStr ''IN_PROGRESS'' then Some IN_PROGRESS
      else if v = JStr ''WAITING_PARTS'' then Some WAITING_PARTS
      else if v = JStr ''COMPLETED'' then Some COMPLETED
      else if v = JStr ''CANCELLED'' then Some CANCELLED
      else None)"

text \<open>
  Modelled from the spec: how an update of the missing store treats its \<open>data\<close>. A column
  keeps its value under an absent key and takes the value of a present one; the status,
  which is typed, is handed over apart.
\<close>

definition set_column :: "jsval option \<Rightarrow> jsval \<Rightarrow> jsval" where
  "set_column key old = (case key of None \<Rightarrow> old | Some v \<Rightarrow> v)"

definition apply_update_data :: "update_data \<Rightarrow> RepairTicketStatus \<Rightarrow> ticket \<Rightarrow> ticket" where
  "apply_update_data d status t =
     t\<lparr> tk_status := status,
        tk_notes := set_column (upd_notes d) (tk_notes t),
        tk_scheduledAt := set_column (upd_scheduledAt d) (tk_scheduledAt t),
        tk_completedAt := set_column (upd_completedAt d) (tk_completedAt t),
        tk_problemTitle := set_column (upd_problemTitle d) (tk_problemTitle t),
        tk_problemDescription := set_column (upd_problemDescription d) (tk_problemDescription t),
        tk_location := set_column (upd_location d) (tk_location t),
        tk_urgency := set_column (upd_urgency d) (tk_urgency t) \<rparr>"

text \<open>
  Modelled from the spec: the check of the missing store on the \<open>status\<close> key of an
  update. A value that is no value of the enum is rejected.
\<close>

definition validate_status :: "jsval option \<Rightarrow> exn + RepairTicketStatus option" where
  "validate_status key =
     (case key of
        None \<Rightarrow> Inr None
      | Some v \<Rightarrow> (case status_of_jsval v of
                    None \<Rightarrow> Inl PrismaClientValidationError
                  | Some s \<Rightarrow> Inr (Some s)))"

text \<open>
  Modelled from the spec: \<^verbatim>\<open>repairTicket.update({where: {id}, data})\<close> of the missing store.
  A status that is rejected is rejected before anything is written; a missing row is the
  "record missing" error \<^verbatim>\<open>P2025\<close>; otherwise the keys present in \<open>data\<close> overwrite
  their columns.
\<close>

definition repairTicket_update :: "int \<Rightarrow> update_data \<Rightarrow> db \<Rightarrow> (exn + ticket) \<times> db" where
  "repairTicket_update ident d st =
     (case validate_status (upd_status d) of
        Inl error \<Rightarrow> (Inl error, st)
      | Inr status \<Rightarrow>
          (case find (\<lambda>t. tk_id t = ident) (repairTickets st) of
             None \<Rightarrow> (Inl (PrismaClientKnownRequestError ''P2025'' []), st)
           | Some t \<Rightarrow>
               (let t' = apply_update_data d (case status of None \<Rightarrow> tk_status t | Some s \<Rightarrow> s) t
                in (Inr t',
                    st\<lparr> repairTickets :=
                          map (\<lambda>x. if tk_id x = ident then t' else x) (repairTickets st) \<rparr>))))"

text \<open>
  Modelled from the spec: \<^verbatim>\<open>repairTicketAssignee.deleteMany({where: {repairTicketId}})\<close>
  "deletes all existing assignee rows for the ticket".
\<close>

definition repairTicketAssignee_deleteMany :: "int \<Rightarrow> db \<Rightarrow> db" where
  "repairTicketAssignee_deleteMany ident st =
     st\<lparr> repairTicketAssignees :=
           filter (\<lambda>a. as_repairTicketId a \<noteq> ident) (repairTicketAssignees st) \<rparr>"

text \<open>
  Modelled from the spec: \<^verbatim>\<open>repairTicketAssignee.createMany({data})\<close> "bulk-inserts the new
  list". A row that refers to a ticket or a user that does not exist is the "foreign key
  violation" \<^verbatim>\<open>P2003\<close>, and then no row is inserted.
\<close>

definition repairTicketAssignee_createMany :: "assignee list \<Rightarrow> db \<Rightarrow> (exn + unit) \<times> db" where
  "repairTicketAssignee_createMany rows st =
     (if list_all (\<lambda>a. as_repairTicketId a \<in> set (map tk_id (repairTickets st))
                         \<and> as_userId a \<in> set (map u_id (users st))) rows
      then (Inr (), st\<lparr> repairTicketAssignees := repairTicketAssignees st @ rows \<rparr>)
      else (Inl (PrismaClientKnownRequestError ''P2003'' []), st))"

text \<open>
  A ticket with the relations of
  \<^verbatim>\<open>include: {user: true, assignees: {include: {user: true}}}\<close>.
\<close>

record ticket_relations =
  tr_ticket :: ticket
  tr_user :: "user option"
  tr_assignees :: "(assignee \<times> user option) list"

definition include_relations :: "db \<Rightarrow> ticket \<Rightarrow> ticket_relations" where
  "include_relations st t =
     \<lparr> tr_ticket = t,
       tr_user = find (\<lambda>u. u_id u = tk_userId t) (users st),
       tr_assignees =
         map (\<lambda>a. (a, find (\<lambda>u. u_id u = as_userId a) (users st)))
           (filter (\<lambda>a. as_repairTicketId a = tk_id t) (repairTicketAssignees st)) \<rparr>"

text \<open>
  The block \<^verbatim>\<open>if (dto.assigneeIds !== undefined) { ... }\<close>. With \<^verbatim>\<open>null\<close> the rows are
  deleted and then reading \<^verbatim>\<open>.length\<close> throws.
\<close>

definition sync_assignees :: "int \<Rightarrow> assigneeIds \<Rightarrow> db \<Rightarrow> (exn + unit) \<times> db" where
  "sync_assignees ident ids st =
     (case ids of
        IdsUndefined \<Rightarrow> (Inr (), st)
      | IdsNull \<Rightarrow> (Inl TypeError, repairTicketAssignee_deleteMany ident st)
      | IdsArray assigneeIds \<Rightarrow>
          (let st1 = repairTicketAssignee_deleteMany ident st in
           if length assigneeIds > 0
           then repairTicketAssignee_createMany
                  (map (\<lambda>userId. \<lparr> as_repairTicketId = ident, as_userId = userId \<rparr>) assigneeIds)
                  st1
           else (Inr (), st1)))"

text \<open>The body of the \<^verbatim>\<open>try\<close> block.\<close>

definition update_try :: "db \<Rightarrow> int \<Rightarrow> update_dto \<Rightarrow> update_data \<Rightarrow> (exn + ticket_relations) \<times> db" where
  "update_try st ident dto updateData =
     (case sync_assignees ident (ud_assigneeIds dto) st of
        (Inl error, st1) \<Rightarrow> (Inl error, st1)
      | (Inr u, st1) \<Rightarrow>
          (case repairTicket_update ident updateData st1 of
             (Inl error, st2) \<Rightarrow> (Inl error, st2)
           | (Inr ticket, st2) \<Rightarrow> (Inr (include_relations st2 ticket), st2)))"

text \<open>
  The message of the exception for \<^verbatim>\<open>P2003\<close> is Thai text in the source; it is given
  here by its English meaning.
\<close>

definition invalid_reference_message :: string where
  "invalid_reference_message =
     ''Invalid reference data (e.g. the assignee does not exist in the system)''"

text \<open>
  \<^verbatim>\<open>update(id, dto, updatedById)\<close>: the \<^verbatim>\<open>catch\<close> block translates the two store codes
  and throws everything else again. What the \<^verbatim>\<open>try\<close> block wrote before it threw stays
  written.
\<close>

definition update :: "db \<Rightarrow> int \<Rightarrow> update_dto \<Rightarrow> int \<Rightarrow> (exn + ticket_relations) \<times> db" where
  "update st ident dto updatedById =
     (let updateData = build_updateData dto in
      case update_try st ident dto updateData of
        (Inr ticket, st') \<Rightarrow> (Inr ticket, st')
      | (Inl error, st') \<Rightarrow>
          if error_code error = Some ''P2025''
          then (Inl (NotFoundException (''Repair ticket #'' @ decimal_int ident @ '' not found'')), st')
          else if error_code error = Some ''P2003''
          then (Inl (BadRequestException invalid_reference_message), st')
          else (Inl error, st'))"

text \<open>The stored row of a ticket, and the user ids of its assignee rows.\<close>

definition ticket_of :: "db \<Rightarrow> int \<Rightarrow> ticket option" where
  "ticket_of st ident = find (\<lambda>t. tk_id t = ident) (repairTickets st)"

definition assignees_of :: "db \<Rightarrow> int \<Rightarrow> int list" where
  "assignees_of st ident =
     map as_userId (filter (\<lambda>a. as_repairTicketId a = ident) (repairTicketAssignees st))"


section \<open>Ticket service: findAll\<close>

text \<open>An optional parameter as the JavaScript value it is: \<open>None\<close> is \<^verbatim>\<open>undefined\<close>.\<close>

definition js_num :: "int option \<Rightarrow> jsval" where
  "js_num x = (case x of None \<Rightarrow> JUndefined | Some n \<Rightarrow> JNum n)"

definition js_str :: "string option \<Rightarrow> jsval" where
  "js_str x = (case x of None \<Rightarrow> JUndefined | Some s \<Rightarrow> JStr s)"

definition js_bool :: "bool option \<Rightarrow> jsval" where
  "js_bool x = (case x of None \<Rightarrow> JUndefined | Some b \<Rightarrow> JBool b)"

record findAll_params =
  p_userId :: "int option"
  p_isAdmin :: "bool option"
  p_status :: "RepairTicketStatus option"
  p_urgency :: "string option"
  p_assignedTo :: "int option"
  p_limit :: "int option"

text \<open>The object \<^verbatim>\<open>where\<close>: \<open>None\<close> is a key that was never assigned.\<close>

record ticket_where =
  w_userId :: "int option"
  w_status :: "RepairTicketStatus option"
  w_urgency :: "string option"
  w_assignedTo :: "int option"

text \<open>
  The construction of \<^verbatim>\<open>where\<close>. Every value of the status enum is a non-empty string,
  hence truthy, so \<^verbatim>\<open>if (status)\<close> is the test that the parameter is there.
\<close>

definition build_where :: "findAll_params \<Rightarrow> ticket_where" where
  "build_where params =
     \<lparr> w_userId = (if \<not> truthy (js_bool (p_isAdmin params)) \<and> truthy (js_num (p_userId params))
                   then p_userId params else None),
       w_status = (if p_status params \<noteq> None then p_status params else None),
       w_urgency = (if truthy (js_str (p_urgency params)) then p_urgency params else None),
       w_assignedTo = (if truthy (js_num (p_assignedTo params)) then p_assignedTo params
                       else None) \<rparr>"

text \<open>
  Modelled from the spec: \<^verbatim>\<open>repairTicket.findMany({where, take, orderBy})\<close> of the missing
  store, in three parts. A row matches when it agrees with every key present in
  \<open>where\<close>; the spec calls the key \<^verbatim>\<open>assignedTo\<close> the filter for the assignee, so it
  asks for an assignee row of that user.
\<close>

definition where_matches :: "db \<Rightarrow> ticket_where \<Rightarrow> ticket \<Rightarrow> bool" where
  "where_matches st w t =
     ((case w_userId w of None \<Rightarrow> True | Some u \<Rightarrow> tk_userId t = u)
      \<and> (case w_status w of None \<Rightarrow> True | Some s \<Rightarrow> tk_status t = s)
      \<and> (case w_urgency w of None \<Rightarrow> True | Some u \<Rightarrow> tk_urgency t = JStr u)
      \<and> (case w_assignedTo w of
            None \<Rightarrow> True
          | Some a \<Rightarrow> list_ex (\<lambda>r. as_repairTicketId r = tk_id t \<and> as_userId r = a)
                        (repairTicketAssignees st)))"

text \<open>
  Modelled from the spec: the "result cap" \<open>take\<close> of the missing store keeps the first
  rows of the list (the last ones when it is negative), and all rows when it is absent.
\<close>

definition take_rows :: "int option \<Rightarrow> 'a list \<Rightarrow> 'a list" where
  "take_rows limit xs =
     (case limit of
        None \<Rightarrow> xs
      | Some n \<Rightarrow> if 0 \<le> n then take (nat n) xs else drop (length xs - nat (- n)) xs)"

text \<open>
  Modelled from the spec: the matching rows, newest first (\<^verbatim>\<open>orderBy: {createdAt: 'desc'}\<close>),
  cut by \<open>take\<close>.
\<close>

definition repairTicket_findMany :: "db \<Rightarrow> ticket_where \<Rightarrow> int option \<Rightarrow> ticket list" where
  "repairTicket_findMany st w limit =
     take_rows limit (rev (sort_key tk_createdAt (filter (where_matches st w) (repairTickets st))))"

definition findAll :: "db \<Rightarrow> findAll_params \<Rightarrow> ticket_relations list" where
  "findAll st params =
     map (include_relations st) (repairTicket_findMany st (build_where params) (p_limit params))"

section \<open>Auth service: login\<close>

record login_dto =
  ld_email :: string
  ld_password :: string

text \<open>The object that \<^verbatim>\<open>login\<close> and \<^verbatim>\<open>lineCallback\<close> return.\<close>

record login_result =
  lr_access_token :: string
  lr_userId :: int
  lr_role :: Role
  lr_message :: string

text \<open>
  Modelled from the spec: \<^verbatim>\<open>user.findUnique({where: {email}})\<close> of the missing store, the
  user with that (unique) email.
\<close>

definition user_findUnique_email :: "db \<Rightarrow> string \<Rightarrow> user option" where
  "user_findUnique_email st email = find (\<lambda>u. u_email u = email) (users st)"

text \<open>
  \<^verbatim>\<open>login(dto)\<close>. The password check \<^verbatim>\<open>bcrypt.compare\<close> and the token signature
  \<^verbatim>\<open>jwtService.sign\<close> are libraries: \<open>compare\<close> takes the password and the stored hash,
  \<open>sign\<close> the two fields of the payload.
\<close>

definition login ::
  "(string \<Rightarrow> string \<Rightarrow> bool) \<Rightarrow> (int \<Rightarrow> Role \<Rightarrow> string) \<Rightarrow> db \<Rightarrow> login_dto \<Rightarrow> exn + login_result" where
  "login compare sign st dto =
     (case user_findUnique_email st (ld_email dto) of
        None \<Rightarrow> Inl (UnauthorizedException ''Email or password incorrect'')
      | Some user \<Rightarrow>
          if \<not> compare (ld_password dto) (u_password user)
          then Inl (UnauthorizedException ''Email or password incorrect'')
          else Inr \<lparr> lr_access_token = sign (u_id user) (u_role user),
                     lr_userId = u_id user,
                     lr_role = u_role user,
                     lr_message = ''Login success'' \<rparr>)"

section \<open>Auth service: lineCallback\<close>

text \<open>
  The external OAuth collaborator: \<^verbatim>\<open>exchangeCodeForToken(code)\<close> gives the provider's
  access token and user id, \<^verbatim>\<open>getUserProfile(token)\<close> a profile whose display name may
  be missing; either call may throw.
\<close>

record token_response =
  access_token :: string
  user_id :: string

record line_profile =
  displayName :: "string option"

record lineOAuth =
  exchangeCodeForToken :: "string \<Rightarrow> exn + token_response"
  getUserProfile :: "string \<Rightarrow> exn + line_profile"

text \<open>
  The calls that \<^verbatim>\<open>lineCallback\<close> makes to its collaborators, in the order it makes them.
\<close>

datatype call =
    ExchangeCodeForToken string
  | UserFindFirst string
  | GetUserProfile string
  | UserCreate string
  | UserUpdate int
  | JwtSign int

text \<open>
  Modelled from the spec: \<^verbatim>\<open>user.findFirst({where: {lineOALink: {lineUserId}}})\<close> of the
  missing store "finds a user by existing provider-link": the first user that a link
  with this provider id points to.
\<close>

definition user_findFirst_lineOALink :: "db \<Rightarrow> string \<Rightarrow> user option" where
  "user_findFirst_lineOALink st lineUserId =
     find (\<lambda>u. list_ex (\<lambda>l. l_userId l = u_id u \<and> l_lineUserId l = lineUserId) (lineOALinks st))
       (users st)"

text \<open>The \<^verbatim>\<open>data\<close> object of \<^verbatim>\<open>user.create\<close> with its nested link.\<close>

record user_data =
  usd_name :: string
  usd_email :: string
  usd_password :: string
  usd_role :: Role
  usd_lineId :: "string option"
  usd_lineOALink :: "(string \<times> string) option"

text \<open>
  Modelled from the spec: \<^verbatim>\<open>user.create\<close> of the missing store. The email is unique (a
  second user with it is the unique violation \<^verbatim>\<open>P2002\<close> with target \<^verbatim>\<open>email\<close>, and
  nothing is written); the row gets the next id and the write time, and the nested link
  row, a pair of provider id and status, points to it.
\<close>

definition user_create :: "nat \<Rightarrow> user_data \<Rightarrow> db \<Rightarrow> (exn + user) \<times> db" where
  "user_create now d st =
     (if usd_email d \<in> set (map u_email (users st))
      then (Inl (PrismaClientKnownRequestError ''P2002'' [''email'']), st)
      else
        (let u = \<lparr> u_id = nextUserId st, u_name = usd_name d, u_email = usd_email d,
                   u_password = usd_password d, u_role = usd_role d, u_department = None,
                   u_phoneNumber = None, u_lineId = usd_lineId d, u_createdAt = now \<rparr>
         in (Inr u,
             st\<lparr> users := users st @ [u],
                 lineOALinks := lineOALinks st @
                   (case usd_lineOALink d of
                      None \<Rightarrow> []
                    | Some (lineUserId, status) \<Rightarrow>
                        [\<lparr> l_userId = nextUserId st, l_lineUserId = lineUserId,
                           l_status = status \<rparr>]),
                 nextUserId := nextUserId st + 1 \<rparr>)))"

text \<open>
  Modelled from the spec: \<^verbatim>\<open>user.update({where: {id}, data})\<close> of the missing store, with
  the changes of the row as a function; a missing row is \<^verbatim>\<open>P2025\<close>.
\<close>

definition user_update :: "int \<Rightarrow> (user \<Rightarrow> user) \<Rightarrow> db \<Rightarrow> (exn + user) \<times> db" where
  "user_update ident change st =
     (case find (\<lambda>u. u_id u = ident) (users st) of
        None \<Rightarrow> (Inl (PrismaClientKnownRequestError ''P2025'' []), st)
      | Some u \<Rightarrow>
          (Inr (change u),
           st\<lparr> users := map (\<lambda>x. if u_id x = ident then change u else x) (users st) \<rparr>))"

text \<open>Step 5 of \<^verbatim>\<open>lineCallback\<close>: the payload is signed and the result object is built.\<close>

definition line_result :: "(int \<Rightarrow> Role \<Rightarrow> string) \<Rightarrow> user \<Rightarrow> login_result" where
  "line_result sign user =
     \<lparr> lr_access_token = sign (u_id user) (u_role user),
       lr_userId = u_id user,
       lr_role = u_role user,
       lr_message = ''LOGIN success via LINE'' \<rparr>"

text \<open>
  \<^verbatim>\<open>lineCallback(code, state)\<close>. \<open>code\<close> is \<open>None\<close> when the argument is missing;
  \<open>hash\<close> is the hash of the random password of a new user. The result comes with the
  store as the call left it and with the calls made; the \<^verbatim>\<open>catch\<close> block logs and throws
  the same exception again.
\<close>

definition lineCallback ::
  "lineOAuth \<Rightarrow> (int \<Rightarrow> Role \<Rightarrow> string) \<Rightarrow> string \<Rightarrow> nat \<Rightarrow> db \<Rightarrow> string option \<Rightarrow> string option
     \<Rightarrow> (exn + login_result) \<times> db \<times> call list" where
  "lineCallback oauth sign hash now st code state =
     (if \<not> truthy (js_str code)
      then (Inl (BadRequestException ''Authorization code is required''), st, [])
      else
        (let c = (case code of None \<Rightarrow> [] | Some s \<Rightarrow> s) in
         case exchangeCodeForToken oauth c of
           Inl error \<Rightarrow> (Inl error, st, [ExchangeCodeForToken c])
         | Inr tokenResponse \<Rightarrow>
             (let lineAccessToken = access_token tokenResponse;
                  lineUserId = user_id tokenResponse;
                  calls = [ExchangeCodeForToken c, UserFindFirst lineUserId]
              in case user_findFirst_lineOALink st lineUserId of
                   None \<Rightarrow>
                     (case getUserProfile oauth lineAccessToken of
                        Inl error \<Rightarrow> (Inl error, st, calls @ [GetUserProfile lineAccessToken])
                      | Inr lineProfile \<Rightarrow>
                          (let email = ''line_'' @ lineUserId @ ''@line.com'';
                               calls' = calls @ [GetUserProfile lineAccessToken, UserCreate email]
                           in case user_create now
                                     \<lparr> usd_name =
                                         (if truthy (js_str (displayName lineProfile))
                                          then (case displayName lineProfile of
                                                  None \<Rightarrow> [] | Some n \<Rightarrow> n)
                                          else ''LINE User''),
                                       usd_email = email,
                                       usd_password = hash,
                                       usd_role = USER,
                                       usd_lineId = Some lineUserId,
                                       usd_lineOALink = Some (lineUserId, ''VERIFIED'') \<rparr>
                                     st of
                                (Inl error, st') \<Rightarrow> (Inl error, st', calls')
                              | (Inr user, st') \<Rightarrow>
                                  (Inr (line_result sign user), st',
                                   calls' @ [JwtSign (u_id user)])))
                 | Some user \<Rightarrow>
                     if \<not> truthy (js_str (u_lineId user))
                     then (case user_update (u_id user)
                                  (\<lambda>u. u\<lparr> u_lineId := Some lineUserId \<rparr>) st of
                             (Inl error, st') \<Rightarrow> (Inl error, st', calls @ [UserUpdate (u_id user)])
                           | (Inr user', st') \<Rightarrow>
                               (Inr (line_result sign user'), st',
                                calls @ [UserUpdate (u_id user), JwtSign (u_id user')]))
                     else (Inr (line_result sign user), st, calls @ [JwtSign (u_id user)]))))"

section \<open>Auth service: updateProfile\<close>

record profile_data =
  pd_name :: "string option"
  pd_department :: "string option"
  pd_phoneNumber :: "string option"
  pd_lineId :: "string option"

text \<open>The projection \<^verbatim>\<open>select\<close> of the user row.\<close>

record profile =
  pr_id :: int
  pr_name :: string
  pr_email :: string
  pr_role :: Role
  pr_department :: "string option"
  pr_phoneNumber :: "string option"
  pr_lineId :: "string option"
  pr_createdAt :: nat

definition select_profile :: "user \<Rightarrow> profile" where
  "select_profile u =
     \<lparr> pr_id = u_id u, pr_name = u_name u, pr_email = u_email u, pr_role = u_role u,
       pr_department = u_department u, pr_phoneNumber = u_phoneNumber u,
       pr_lineId = u_lineId u, pr_createdAt = u_createdAt u \<rparr>"

text \<open>
  The \<^verbatim>\<open>data\<close> object \<^verbatim>\<open>{...(data.name && {name: data.name}), ...}\<close>: a key is there when
  the supplied value is truthy, and spreading a falsy value adds nothing.
\<close>

definition profile_changes :: "profile_data \<Rightarrow> user \<Rightarrow> user" where
  "profile_changes d u =
     u\<lparr> u_name := (if truthy (js_str (pd_name d))
                    then (case pd_name d of None \<Rightarrow> u_name u | Some n \<Rightarrow> n) else u_name u),
        u_department := (if truthy (js_str (pd_department d)) then pd_department d
                         else u_department u),
        u_phoneNumber := (if truthy (js_str (pd_phoneNumber d)) then pd_phoneNumber d
                          else u_phoneNumber u),
        u_lineId := (if truthy (js_str (pd_lineId d)) then pd_lineId d else u_lineId u) \<rparr>"

definition updateProfile :: "db \<Rightarrow> int \<Rightarrow> profile_data \<Rightarrow> (exn + profile) \<times> db" where
  "updateProfile st userId d =
     (case user_update userId (profile_changes d) st of
        (Inl error, st') \<Rightarrow> (Inl error, st')
      | (Inr user, st') \<Rightarrow> (Inr (select_profile user), st'))"

definition user_of :: "db \<Rightarrow> int \<Rightarrow> user option" where
  "user_of st ident = find (\<lambda>u. u_id u = ident) (users st)"

section \<open>Store invariant and example data\<close>

text \<open>
  What the auto-increment key and the reference of an attachment to its ticket give: every
  ticket id is below the counter, and every attachment row belongs to a stored ticket.
\<close>

definition wf_attachments :: "db \<Rightarrow> bool" where
  "wf_attachments st =
     (list_all (\<lambda>t. tk_id t < nextTicketId st) (repairTickets st)
      \<and> list_all (\<lambda>a. at_repairTicketId a \<in> set (map tk_id (repairTickets st))) (attachments st))"

text \<open>
  A small store: Alice (no provider id yet) and Bob, both linked to the provider; a
  pending ticket of Alice with Bob as assignee, and a ticket of Bob in progress.
\<close>

definition alice :: user where
  "alice = \<lparr> u_id = 1, u_name = ''Alice'', u_email = ''alice@example.com'',
             u_password = ''hash:secret'', u_role = USER, u_department = Some ''IT'',
             u_phoneNumber = None, u_lineId = None, u_createdAt = 10 \<rparr>"

definition bob :: user where
  "bob = \<lparr> u_id = 2, u_name = ''Bob'', u_email = ''bob@example.com'',
           u_password = ''hash:hunter2'', u_role = USER, u_department = None,
           u_phoneNumber = None, u_lineId = Some ''U-bob'', u_createdAt = 20 \<rparr>"

definition ticket1 :: ticket where
  "ticket1 = \<lparr> tk_id = 1, tk_ticketCode = ''REP-100'', tk_reporterName = JStr ''Alice'',
               tk_reporterDepartment = JNull, tk_reporterPhone = JNull,
               tk_reporterLineId = JNull, tk_problemCategory = JStr ''HARDWARE'',
               tk_problemTitle = JStr ''Printer'', tk_problemDescription = JStr ''Paper jam'',
               tk_location = JStr ''Room 1'', tk_urgency = JStr ''NORMAL'', tk_status = PENDING,
               tk_userId = 1, tk_notes = JStr ''call first'', tk_scheduledAt = JDate (JNum 100),
               tk_completedAt = JNull, tk_cancelledAt = JNull, tk_createdAt = 100 \<rparr>"

definition ticket2 :: ticket where
  "ticket2 = \<lparr> tk_id = 2, tk_ticketCode = ''REP-200'', tk_reporterName = JStr ''Bob'',
               tk_reporterDepartment = JNull, tk_reporterPhone = JNull,
               tk_reporterLineId = JNull, tk_problemCategory = JStr ''NETWORK'',
               tk_problemTitle = JStr ''Wifi'', tk_problemDescription = JNull,
               tk_location = JStr ''Room 2'', tk_urgency = JStr ''NORMAL'',
               tk_status = IN_PROGRESS, tk_userId = 2, tk_notes = JNull,
               tk_scheduledAt = JDate (JNum 200), tk_completedAt = JNull,
               tk_cancelledAt = JNull, tk_createdAt = 200 \<rparr>"

definition example_db :: db where
  "example_db =
     \<lparr> users = [alice, bob],
       lineOALinks = [\<lparr> l_userId = 1, l_lineUserId = ''U-alice'', l_status = ''VERIFIED'' \<rparr>,
                      \<lparr> l_userId = 2, l_lineUserId = ''U-bob'', l_status = ''VERIFIED'' \<rparr>],
       repairTickets = [ticket1, ticket2],
       attachments = [],
       repairTicketAssignees = [\<lparr> as_repairTicketId = 1, as_userId = 2 \<rparr>],
       nextUserId = 3,
       nextTicketId = 3 \<rparr>"

definition example_create_dto :: create_dto where
  "example_create_dto =
     \<lparr> cd_reporterName = JStr ''Alice'', cd_reporterDepartment = JUndefined,
       cd_reporterPhone = JUndefined, cd_reporterLineId = JUndefined,
       cd_problemCategory = JStr ''HARDWARE'', cd_problemTitle = JStr ''Monitor'',
       cd_problemDescription = JUndefined, cd_location = JStr ''Room 3'',
       cd_urgency = JUndefined, cd_notes = JUndefined, cd_scheduledAt = JUndefined \<rparr>"



text \<open>An object storage that accepts every file.\<close>

definition example_upload :: uploader where
  "example_upload buffer name folder = Inr (''https://cdn.example/'' @ folder @ ''/'' @ name)"

text \<open>An update request without any field.\<close>

definition empty_update_dto :: update_dto where
  "empty_update_dto =
     \<lparr> ud_status = JUndefined, ud_notes = JUndefined, ud_scheduledAt = JUndefined,
       ud_completedAt = JUndefined, ud_problemTitle = JUndefined,
       ud_problemDescription = JUndefined, ud_location = JUndefined,
       ud_urgency = JUndefined, ud_assigneeIds = IdsUndefined \<rparr>"

text \<open>A list request of a caller that is no admin and carries no user id.\<close>

definition anonymous_params :: findAll_params where
  "anonymous_params =
     \<lparr> p_userId = None, p_isAdmin = Some False, p_status = None, p_urgency = None,
       p_assignedTo = None, p_limit = None \<rparr>"

text \<open>A password check and a token signature to run the examples with.\<close>

definition example_compare :: "string \<Rightarrow> string \<Rightarrow> bool" where
  "example_compare password hash = (hash = ''hash:'' @ password)"

definition example_sign :: "int \<Rightarrow> Role \<Rightarrow> string" where
  "example_sign sub role = ''jwt-'' @ decimal_int sub"

definition example_oauth :: lineOAuth where
  "example_oauth =
     \<lparr> exchangeCodeForToken = (\<lambda>code. Inr \<lparr> access_token = ''token-'' @ code,
                                          user_id = ''U-'' @ code \<rparr>),
       getUserProfile = (\<lambda>token. Inr \<lparr> displayName = Some ''Someone'' \<rparr>) \<rparr>"

section \<open>Properties of getStatistics\<close>

lemma foldl_snd_sum:
  "foldl (\<lambda>acc curr. acc + snd curr) (a::nat) xs = a + sum_list (map snd xs)"
  by (induction xs arbitrary: a) auto

lemma find_group:
  "find (\<lambda>g. fst g = s) (map (\<lambda>s. (s, f s)) xs) = (if s \<in> set xs then Some (s, f s) else None)"
  by (induction xs) auto

lemma getCount_groupBy:
  "getCount (repairTicket_groupBy_status st) s
     = length (filter (\<lambda>t. tk_status t = s) (repairTickets st))"
proof (cases "s \<in> set (map tk_status (repairTickets st))")
  case True
  then show ?thesis
    by (auto simp: getCount_def repairTicket_groupBy_status_def find_group)
next
  case False
  then have "filter (\<lambda>t. tk_status t = s) (repairTickets st) = []"
    by (auto simp: filter_empty_conv)
  with False show ?thesis
    by (auto simp: getCount_def repairTicket_groupBy_status_def find_group)
qed

lemma length_by_status:
  "length (filter (\<lambda>t. tk_status t = PENDING) ts)
     + length (filter (\<lambda>t. tk_status t = IN_PROGRESS) ts)
     + length (filter (\<lambda>t. tk_status t = WAITING_PARTS) ts)
     + length (filter (\<lambda>t. tk_status t = COMPLETED) ts)
     + length (filter (\<lambda>t. tk_status t = CANCELLED) ts) = length ts"
proof (induction ts)
  case Nil
  then show ?case by simp
next
  case (Cons t ts)
  then show ?case by (cases "tk_status t") simp_all
qed

lemma total_groupBy:
  "sum_list (map snd (repairTicket_groupBy_status st)) = length (repairTickets st)"
proof -
  let ?ts = "repairTickets st"
  have "sum_list (map snd (repairTicket_groupBy_status st))
        = sum_list (map (\<lambda>s. length (filter (\<lambda>t. tk_status t = s) ?ts))
                     (remdups (map tk_status ?ts)))"
    by (simp add: repairTicket_groupBy_status_def comp_def)
  also have "\<dots> = (\<Sum>s\<in>set (map tk_status ?ts). length (filter (\<lambda>t. tk_status t = s) ?ts))"
    by (simp add: sum_list_distinct_conv_sum_set)
  also have "\<dots> = (\<Sum>s\<in>set (map tk_status ?ts). count_list (map tk_status ?ts) s)"
    by (intro sum.cong refl) (simp add: count_list_eq_length_filter comp_def eq_commute)
  also have "\<dots> = length (map tk_status ?ts)"
    by (rule sum_count_set) auto
  finally show ?thesis by simp
qed

lemma getStatistics_total: "total (getStatistics st) = length (repairTickets st)"
  by (simp add: getStatistics_def Let_def foldl_snd_sum total_groupBy)

lemma getStatistics_status_count:
  "status_count (getStatistics st) s = length (filter (\<lambda>t. tk_status t = s) (repairTickets st))"
  by (cases s) (simp_all add: getStatistics_def Let_def getCount_groupBy)

text \<open>
  Claim C6. In every state of the store, the five counts that \<open>getStatistics\<close> returns
  (pending, inProgress, waitingParts, completed, cancelled) add up to the returned total,
  and the count of a status that no ticket has is there with value 0.
\<close>

theorem getStatistics_counts:
  "pending (getStatistics st) + inProgress (getStatistics st) + waitingParts (getStatistics st)
     + completed (getStatistics st) + cancelled (getStatistics st) = total (getStatistics st)
   \<and> (\<forall>s. (\<forall>t \<in> set (repairTickets st). tk_status t \<noteq> s)
          \<longrightarrow> status_count (getStatistics st) s = 0)"
proof (intro conjI allI impI)
  show "pending (getStatistics st) + inProgress (getStatistics st)
          + waitingParts (getStatistics st) + completed (getStatistics st)
          + cancelled (getStatistics st) = total (getStatistics st)"
    using length_by_status [of "repairTickets st"]
    by (simp add: getStatistics_def Let_def getCount_groupBy foldl_snd_sum total_groupBy)
next
  fix s
  assume "\<forall>t \<in> set (repairTickets st). tk_status t \<noteq> s"
  then have "filter (\<lambda>t. tk_status t = s) (repairTickets st) = []"
    by (simp add: filter_empty_conv)
  then show "status_count (getStatistics st) s = 0"
    by (simp add: getStatistics_status_count)
qed

theorem getStatistics_counts_witness:
  "pending (getStatistics example_db) + inProgress (getStatistics example_db)
     + waitingParts (getStatistics example_db) + completed (getStatistics example_db)
     + cancelled (getStatistics example_db) = total (getStatistics example_db)
   \<and> COMPLETED \<notin> set (map tk_status (repairTickets example_db))
   \<and> completed (getStatistics example_db) = 0
   \<and> total (getStatistics example_db) = 2"
proof -
  have none: "COMPLETED \<notin> set (map tk_status (repairTickets example_db))"
    by (simp add: example_db_def ticket1_def ticket2_def)
  then have "\<forall>t \<in> set (repairTickets example_db). tk_status t \<noteq> COMPLETED"
    by (metis image_eqI set_map)
  with getStatistics_counts [of example_db]
  have "pending (getStatistics example_db) + inProgress (getStatistics example_db)
          + waitingParts (getStatistics example_db) + completed (getStatistics example_db)
          + cancelled (getStatistics example_db) = total (getStatistics example_db)"
    and "status_count (getStatistics example_db) COMPLETED = 0"
    by blast+
  moreover have "total (getStatistics example_db) = 2"
    by (simp add: getStatistics_total example_db_def)
  ultimately show ?thesis using none by simp
qed

section \<open>Properties of login\<close>

text \<open>
  Claim C5. A login with an email that is not registered and a login with a registered
  email and a wrong password fail with the same exception, the unauthorized error with
  the message "Email or password incorrect": the caller cannot tell the two apart.
\<close>

theorem login_failures_identical:
  assumes "user_findUnique_email st (ld_email unknown) = None"
    and "user_findUnique_email st (ld_email known) = Some user"
    and "\<not> compare (ld_password known) (u_password user)"
  shows "login compare sign st unknown = Inl (UnauthorizedException ''Email or password incorrect'')
       \<and> login compare sign st known = login compare sign st unknown"
  using assms by (simp add: login_def)

theorem login_failures_identical_witness:
  "user_findUnique_email example_db ''carol@example.com'' = None
   \<and> user_findUnique_email example_db ''alice@example.com'' = Some alice
   \<and> \<not> example_compare ''guess'' (u_password alice)
   \<and> login example_compare example_sign example_db
        \<lparr> ld_email = ''carol@example.com'', ld_password = ''secret'' \<rparr>
       = Inl (UnauthorizedException ''Email or password incorrect'')
   \<and> login example_compare example_sign example_db
        \<lparr> ld_email = ''alice@example.com'', ld_password = ''guess'' \<rparr>
       = login example_compare example_sign example_db
           \<lparr> ld_email = ''carol@example.com'', ld_password = ''secret'' \<rparr>"
  using login_failures_identical
    [where st = example_db and compare = example_compare and sign = example_sign
       and unknown = "\<lparr> ld_email = ''carol@example.com'', ld_password = ''secret'' \<rparr>"
       and known = "\<lparr> ld_email = ''alice@example.com'', ld_password = ''guess'' \<rparr>"
       and user = alice]
  by (simp add: user_findUnique_email_def example_db_def alice_def bob_def example_compare_def)

section \<open>Properties of lineCallback\<close>

text \<open>
  Claim C10. A callback whose authorization code is missing or empty raises the
  bad-request error "Authorization code is required" before any call to the OAuth
  collaborator or to the store: no call is made and the store is unchanged.
\<close>

theorem lineCallback_requires_code:
  "code = None \<or> code = Some [] \<Longrightarrow>
   lineCallback oauth sign hash now st code state
     = (Inl (BadRequestException ''Authorization code is required''), st, [])"
  by (auto simp: lineCallback_def js_str_def)

theorem lineCallback_requires_code_witness:
  "lineCallback example_oauth example_sign ''h'' 5 example_db (Some []) None
     = (Inl (BadRequestException ''Authorization code is required''), example_db, [])
   \<and> lineCallback example_oauth example_sign ''h'' 5 example_db None None
     = (Inl (BadRequestException ''Authorization code is required''), example_db, [])"
  using lineCallback_requires_code [of "Some []" example_oauth example_sign "''h''" 5 example_db None]
    lineCallback_requires_code [of None example_oauth example_sign "''h''" 5 example_db None]
  by simp

section \<open>Lemmas on rows and keys\<close>

lemma find_replace_by_key:
  assumes "key c = i"
  shows "find (\<lambda>x. key x = i) (map (\<lambda>x. if key x = i then c else x) xs)
           = (case find (\<lambda>x. key x = i) xs of None \<Rightarrow> None | Some x \<Rightarrow> Some c)"
  using assms by (induction xs) auto

lemma find_replace_other_key:
  assumes "key c = i" and "j \<noteq> i"
  shows "find (\<lambda>x. key x = j) (map (\<lambda>x. if key x = i then c else x) xs)
           = find (\<lambda>x. key x = j) xs"
  using assms by (induction xs) auto

lemma map_key_replace:
  assumes "key c = i"
  shows "map key (map (\<lambda>x. if key x = i then c else x) xs) = map key xs"
  using assms by (induction xs) auto

lemma user_update_found:
  assumes "user_of st ident = Some old" and "u_id (change old) = ident"
  shows "user_update ident change st
           = (Inr (change old),
              st\<lparr> users := map (\<lambda>x. if u_id x = ident then change old else x) (users st) \<rparr>)"
  using assms by (simp add: user_update_def user_of_def)

lemma user_update_missing:
  assumes "user_of st ident = None"
  shows "user_update ident change st = (Inl (PrismaClientKnownRequestError ''P2025'' []), st)"
  using assms by (simp add: user_update_def user_of_def)

lemma find_Some_key: "find (\<lambda>x. key x = i) xs = Some x \<Longrightarrow> key x = i"
  by (induction xs) (auto split: if_splits)

lemma find_Some_mem: "find P xs = Some x \<Longrightarrow> x \<in> set xs"
  by (induction xs) (auto split: if_splits)

lemma user_of_member:
  assumes "user \<in> set (users st)"
  shows "\<exists>first. user_of st (u_id user) = Some first"
proof (cases "user_of st (u_id user)")
  case None
  with assms show ?thesis by (auto simp: user_of_def find_None_iff)
next
  case (Some first)
  then show ?thesis by blast
qed

text \<open>
  Claim C7. When the provider user id that the code was exchanged for belongs to a user
  through a provider link, the callback returns the id of that user; it creates no user:
  the users keep their ids, the counter and the links are unchanged, and no create call
  is made.
\<close>

theorem lineCallback_existing_link:
  assumes "code \<noteq> []"
    and "exchangeCodeForToken oauth code = Inr tokenResponse"
    and "user_findFirst_lineOALink st (user_id tokenResponse) = Some user"
  shows "\<exists>res st' calls.
           lineCallback oauth sign hash now st (Some code) state = (Inr res, st', calls)
         \<and> lr_userId res = u_id user
         \<and> map u_id (users st') = map u_id (users st)
         \<and> length (users st') = length (users st)
         \<and> nextUserId st' = nextUserId st
         \<and> lineOALinks st' = lineOALinks st
         \<and> (\<forall>email. UserCreate email \<notin> set calls)"
proof -
  have code: "truthy (js_str (Some code))"
    using assms(1) by (simp add: js_str_def)
  have mem: "user \<in> set (users st)"
    using assms(3) unfolding user_findFirst_lineOALink_def by (rule find_Some_mem)
  show ?thesis
  proof (cases "truthy (js_str (u_lineId user))")
    case True
    with code assms(2,3) show ?thesis
      by (simp add: lineCallback_def Let_def line_result_def)
  next
    case False
    from user_of_member [OF mem] obtain first where first: "user_of st (u_id user) = Some first"
      by blast
    have ident: "u_id first = u_id user"
      using first unfolding user_of_def by (rule find_Some_key)
    let ?change = "\<lambda>u. u\<lparr> u_lineId := Some (user_id tokenResponse) \<rparr>"
    have key: "u_id (?change first) = u_id user"
      using ident by simp
    note upd = user_update_found [where change = ?change, OF first key]
    have ids: "map u_id (map (\<lambda>x. if u_id x = u_id user then ?change first else x) (users st))
                 = map u_id (users st)"
      using key by (rule map_key_replace)
    from False code assms(2,3) upd ids ident show ?thesis
      by (simp add: lineCallback_def Let_def line_result_def)
  qed
qed

theorem lineCallback_existing_link_witness:
  "''alice'' \<noteq> []
   \<and> exchangeCodeForToken example_oauth ''alice''
        = Inr \<lparr> access_token = ''token-alice'', user_id = ''U-alice'' \<rparr>
   \<and> user_findFirst_lineOALink example_db ''U-alice'' = Some alice
   \<and> (\<exists>res st' calls.
         lineCallback example_oauth example_sign ''h'' 5 example_db (Some ''alice'') None
           = (Inr res, st', calls)
       \<and> lr_userId res = 1 \<and> map u_id (users st') = [1, 2] \<and> nextUserId st' = 3)"
proof -
  have ex: "exchangeCodeForToken example_oauth ''alice''
              = Inr \<lparr> access_token = ''token-alice'', user_id = ''U-alice'' \<rparr>"
    by (simp add: example_oauth_def)
  have found: "user_findFirst_lineOALink example_db
                 (user_id \<lparr> access_token = ''token-alice'', user_id = ''U-alice'' \<rparr>) = Some alice"
    by (simp add: user_findFirst_lineOALink_def example_db_def alice_def bob_def)
  have ne: "''alice'' \<noteq> []" by simp
  from lineCallback_existing_link [OF ne ex found, of example_sign "''h''" 5 None]
  obtain res st' calls where
    "lineCallback example_oauth example_sign ''h'' 5 example_db (Some ''alice'') None
       = (Inr res, st', calls)"
    "lr_userId res = u_id alice" "map u_id (users st') = map u_id (users example_db)"
    "nextUserId st' = nextUserId example_db"
    by blast
  then have "\<exists>res st' calls.
         lineCallback example_oauth example_sign ''h'' 5 example_db (Some ''alice'') None
           = (Inr res, st', calls)
       \<and> lr_userId res = 1 \<and> map u_id (users st') = [1, 2] \<and> nextUserId st' = 3"
    by (auto simp: alice_def bob_def example_db_def)
  with ne ex found show ?thesis by simp
qed

section \<open>Properties of updateProfile\<close>

lemma updateProfile_missing_user:
  "user_of st userId = None \<Longrightarrow>
   updateProfile st userId d = (Inl (PrismaClientKnownRequestError ''P2025'' []), st)"
  by (simp add: updateProfile_def user_update_missing)

lemma updateProfile_other_users:
  assumes "j \<noteq> userId"
  shows "user_of (snd (updateProfile st userId d)) j = user_of st j"
proof (cases "user_of st userId")
  case None
  then show ?thesis by (simp add: updateProfile_missing_user)
next
  case (Some old)
  have ident: "u_id old = userId"
    using Some unfolding user_of_def by (rule find_Some_key)
  then have key: "u_id (profile_changes d old) = userId"
    by (simp add: profile_changes_def)
  show ?thesis using assms
    by (simp add: updateProfile_def user_update_found [where change = "profile_changes d", OF Some key] user_of_def
        find_replace_other_key [where key = u_id, OF key])
qed

text \<open>
  Claim C8. \<open>updateProfile\<close> applies exactly the supplied fields with a truthy value
  (name, department, phoneNumber, lineId) to the user record: a field that is missing or
  supplied as the empty string leaves the stored value as it was, and no other column
  changes.
\<close>

theorem updateProfile_truthy_fields:
  assumes "user_of st userId = Some old"
  shows "\<exists>new st'.
           updateProfile st userId d = (Inr (select_profile new), st')
         \<and> user_of st' userId = Some new
         \<and> u_name new = (case pd_name d of
                            None \<Rightarrow> u_name old
                          | Some v \<Rightarrow> if v = [] then u_name old else v)
         \<and> u_department new = (case pd_department d of
                                  None \<Rightarrow> u_department old
                                | Some v \<Rightarrow> if v = [] then u_department old else Some v)
         \<and> u_phoneNumber new = (case pd_phoneNumber d of
                                   None \<Rightarrow> u_phoneNumber old
                                 | Some v \<Rightarrow> if v = [] then u_phoneNumber old else Some v)
         \<and> u_lineId new = (case pd_lineId d of
                              None \<Rightarrow> u_lineId old
                            | Some v \<Rightarrow> if v = [] then u_lineId old else Some v)
         \<and> u_id new = u_id old \<and> u_email new = u_email old \<and> u_password new = u_password old
         \<and> u_role new = u_role old \<and> u_createdAt new = u_createdAt old"
proof -
  let ?new = "profile_changes d old"
  have ident: "u_id old = userId"
    using assms unfolding user_of_def by (rule find_Some_key)
  then have key: "u_id ?new = userId"
    by (simp add: profile_changes_def)
  let ?st' = "st\<lparr> users := map (\<lambda>x. if u_id x = userId then ?new else x) (users st) \<rparr>"
  have run: "updateProfile st userId d = (Inr (select_profile ?new), ?st')"
    by (simp add: updateProfile_def user_update_found [where change = "profile_changes d", OF assms key])
  have stored: "user_of ?st' userId = Some ?new"
    using assms by (simp add: user_of_def find_replace_by_key [where key = u_id, OF key])
  have fields:
    "u_name ?new = (case pd_name d of None \<Rightarrow> u_name old
                    | Some v \<Rightarrow> if v = [] then u_name old else v)"
    "u_department ?new = (case pd_department d of None \<Rightarrow> u_department old
                          | Some v \<Rightarrow> if v = [] then u_department old else Some v)"
    "u_phoneNumber ?new = (case pd_phoneNumber d of None \<Rightarrow> u_phoneNumber old
                           | Some v \<Rightarrow> if v = [] then u_phoneNumber old else Some v)"
    "u_lineId ?new = (case pd_lineId d of None \<Rightarrow> u_lineId old
                      | Some v \<Rightarrow> if v = [] then u_lineId old else Some v)"
    by (simp_all add: profile_changes_def js_str_def split: option.splits)
  have frame: "u_id ?new = u_id old" "u_email ?new = u_email old"
    "u_password ?new = u_password old" "u_role ?new = u_role old"
    "u_createdAt ?new = u_createdAt old"
    by (simp_all add: profile_changes_def)
  from run stored fields frame show ?thesis by blast
qed

theorem updateProfile_truthy_fields_witness:
  "user_of example_db 1 = Some alice
   \<and> (\<exists>new st'.
         updateProfile example_db 1
           \<lparr> pd_name = Some [], pd_department = Some ''HR'', pd_phoneNumber = None,
             pd_lineId = Some [] \<rparr> = (Inr (select_profile new), st')
       \<and> user_of st' 1 = Some new
       \<and> u_name new = ''Alice'' \<and> u_department new = Some ''HR''
       \<and> u_phoneNumber new = None \<and> u_lineId new = None)"
proof -
  have found: "user_of example_db 1 = Some alice"
    by (simp add: user_of_def example_db_def alice_def)
  from updateProfile_truthy_fields [OF found,
      of "\<lparr> pd_name = Some [], pd_department = Some ''HR'', pd_phoneNumber = None,
            pd_lineId = Some [] \<rparr>"]
  obtain new st' where
    "updateProfile example_db 1
           \<lparr> pd_name = Some [], pd_department = Some ''HR'', pd_phoneNumber = None,
             pd_lineId = Some [] \<rparr> = (Inr (select_profile new), st')"
    "user_of st' 1 = Some new"
    "u_name new = u_name alice" "u_department new = Some ''HR''"
    "u_phoneNumber new = u_phoneNumber alice" "u_lineId new = u_lineId alice"
    by auto
  then show ?thesis using found by (auto simp: alice_def)
qed

section \<open>Properties of findAll\<close>

lemma set_take_rows: "set (take_rows limit xs) \<subseteq> set xs"
proof (cases limit)
  case None
  then show ?thesis by (simp add: take_rows_def)
next
  case (Some n)
  show ?thesis
  proof (cases "0 \<le> n")
    case True
    with Some show ?thesis by (simp add: take_rows_def set_take_subset)
  next
    case False
    with Some show ?thesis by (simp add: take_rows_def set_drop_subset)
  qed
qed


lemma findMany_sound:
  assumes "t \<in> set (repairTicket_findMany st w limit)"
  shows "where_matches st w t \<and> t \<in> set (repairTickets st)"
proof -
  let ?rows = "rev (sort_key tk_createdAt (filter (where_matches st w) (repairTickets st)))"
  have "set (take_rows limit ?rows) \<subseteq> set ?rows"
    by (rule set_take_rows)
  with assms have "t \<in> set ?rows"
    unfolding repairTicket_findMany_def by (rule_tac subsetD)
  then show ?thesis by simp
qed

text \<open>
  Claim C3, as amended. When the caller is no admin and its user id is supplied and not
  zero, every ticket that \<open>findAll\<close> returns is a stored ticket owned by the caller,
  whatever status, urgency, assignee or limit is requested.
\<close>

theorem findAll_non_admin_own_tickets:
  assumes "p_isAdmin params \<noteq> Some True"
    and "p_userId params = Some userId" and "userId \<noteq> 0"
    and "r \<in> set (findAll st params)"
  shows "tk_userId (tr_ticket r) = userId \<and> tr_ticket r \<in> set (repairTickets st)"
proof -
  from assms(4) obtain t where
    t: "t \<in> set (repairTicket_findMany st (build_where params) (p_limit params))"
    and r: "r = include_relations st t"
    by (auto simp: findAll_def)
  have "\<not> truthy (js_bool (p_isAdmin params))"
    using assms(1) by (cases "p_isAdmin params") (auto simp: js_bool_def)
  then have "w_userId (build_where params) = Some userId"
    using assms(2,3) by (simp add: build_where_def js_num_def)
  with findMany_sound [OF t] r show ?thesis
    by (simp add: where_matches_def include_relations_def)
qed


theorem findAll_non_admin_own_tickets_witness:
  "p_isAdmin (anonymous_params\<lparr> p_userId := Some 1 \<rparr>) \<noteq> Some True
   \<and> (1::int) \<noteq> 0
   \<and> findAll example_db (anonymous_params\<lparr> p_userId := Some 1 \<rparr>) = [include_relations example_db ticket1]
   \<and> tk_userId (tr_ticket (include_relations example_db ticket1)) = 1"
proof -
  have list: "findAll example_db (anonymous_params\<lparr> p_userId := Some 1 \<rparr>)
                = [include_relations example_db ticket1]"
    by (simp add: findAll_def repairTicket_findMany_def build_where_def anonymous_params_def
        js_bool_def js_num_def js_str_def take_rows_def where_matches_def example_db_def
        ticket1_def ticket2_def)
  have admin: "p_isAdmin (anonymous_params\<lparr> p_userId := Some 1 \<rparr>) \<noteq> Some True"
    and caller: "p_userId (anonymous_params\<lparr> p_userId := Some 1 \<rparr>) = Some 1"
    by (simp_all add: anonymous_params_def)
  have mem: "include_relations example_db ticket1
               \<in> set (findAll example_db (anonymous_params\<lparr> p_userId := Some 1 \<rparr>))"
    by (simp add: list)
  have "tk_userId (tr_ticket (include_relations example_db ticket1)) = 1"
    using findAll_non_admin_own_tickets [OF admin caller _ mem] by simp
  with list admin show ?thesis by simp
qed

text \<open>
  Claim C3 as stated fails: the owner filter is set only under \<^verbatim>\<open>!isAdmin && userId\<close>, so
  a caller that is no admin and whose user id is missing gets the tickets of every user.
\<close>

theorem findAll_anonymous_counterexample:
  "p_isAdmin anonymous_params = Some False
   \<and> p_userId anonymous_params = None
   \<and> map (tk_userId \<circ> tr_ticket) (findAll example_db anonymous_params) = [2, 1]"
proof -
  have "findAll example_db anonymous_params
          = [include_relations example_db ticket2, include_relations example_db ticket1]"
    by (simp add: findAll_def repairTicket_findMany_def build_where_def anonymous_params_def
        js_bool_def js_num_def js_str_def take_rows_def where_matches_def example_db_def
        ticket1_def ticket2_def)
  moreover have "tk_userId (tr_ticket (include_relations example_db ticket2)) = 2"
    "tk_userId (tr_ticket (include_relations example_db ticket1)) = 1"
    by (simp_all add: include_relations_def ticket1_def ticket2_def)
  ultimately show ?thesis
    by (simp add: anonymous_params_def)
qed

section \<open>Properties of create\<close>



lemma upload_files_valid:
  assumes "list_all valid_file fs" and "\<not> list_ex (upload_rethrown up) fs"
  shows "\<exists>new. upload_files up fs acc = Inr (acc @ new)
               \<and> length new = length (filter (uploaded up) fs)"
  using assms
proof (induction fs arbitrary: acc)
  case Nil
  then show ?case by simp
next
  case (Cons f fs)
  then have "valid_file f" and rest: "list_all valid_file fs"
    and keep: "\<not> upload_rethrown up f" and keeps: "\<not> list_ex (upload_rethrown up) fs"
    by simp_all
  then have valid: "validate_file f = None"
    by (simp add: valid_file_def)
  show ?case
  proof (cases "upload_of up f")
    case (Inl error)
    with keep have skip: "\<not> is_BadRequestException error" "\<not> uploaded up f"
      by (simp_all add: upload_rethrown_def uploaded_def)
    from Cons.IH [OF rest keeps, of acc] obtain new where
      "upload_files up fs acc = Inr (acc @ new)" "length new = length (filter (uploaded up) fs)"
      by blast
    with valid Inl skip show ?thesis by simp
  next
    case (Inr url)
    then have up: "uploaded up f" by (simp add: uploaded_def)
    let ?a = "\<lparr> ad_filename = sanitizeFilename (f_originalname f), ad_fileUrl = url,
                ad_fileSize = f_size f, ad_mimeType = f_mimetype f \<rparr>"
    from Cons.IH [OF rest keeps, of "acc @ [?a]"] obtain new where
      new: "upload_files up fs (acc @ [?a]) = Inr ((acc @ [?a]) @ new)"
        "length new = length (filter (uploaded up) fs)"
      by blast
    have "upload_files up (f # fs) acc = Inr (acc @ (?a # new))"
      using valid Inr new(1) by simp
    moreover have "length (?a # new) = length (filter (uploaded up) (f # fs))"
      using up new(2) by simp
    ultimately show ?thesis by blast
  qed
qed



lemma attachments_of_fresh:
  assumes "wf_attachments st"
  shows "attachments_of st (nextTicketId st) = []"
proof -
  have "at_repairTicketId a \<noteq> nextTicketId st" if "a \<in> set (attachments st)" for a
  proof -
    from assms that have "at_repairTicketId a \<in> set (map tk_id (repairTickets st))"
      by (simp add: wf_attachments_def list_all_iff)
    then obtain t where "t \<in> set (repairTickets st)" "tk_id t = at_repairTicketId a"
      by auto
    with assms show ?thesis
      by (auto simp: wf_attachments_def list_all_iff)
  qed
  then show ?thesis
    by (simp add: attachments_of_def filter_empty_conv)
qed

lemma repairTicket_create_accepted:
  assumes "td_userId d \<in> set (map u_id (users st))"
    and "td_ticketCode d \<notin> set (map tk_ticketCode (repairTickets st))"
  shows "\<exists>t st'. repairTicket_create now d st = (Inr t, st')
           \<and> tk_id t = nextTicketId st
           \<and> tk_scheduledAt t = td_scheduledAt d
           \<and> repairTickets st' = repairTickets st @ [t]
           \<and> attachments_of st' (nextTicketId st)
                = attachments_of st (nextTicketId st)
                  @ map (\<lambda>a. \<lparr> at_repairTicketId = nextTicketId st, at_filename = ad_filename a,
                                at_fileUrl = ad_fileUrl a, at_fileSize = ad_fileSize a,
                                at_mimeType = ad_mimeType a \<rparr>) (td_attachments d)"
  using assms
  by (simp add: repairTicket_create_def Let_def attachments_of_def filter_map comp_def)

lemma repairTicket_create_returns:
  assumes "repairTicket_create now d st = (Inr t, st')"
  shows "tk_scheduledAt t = td_scheduledAt d \<and> t \<in> set (repairTickets st')"
  using assms
  by (auto simp: repairTicket_create_def Let_def split: if_splits)


lemma create_uploads:
  "(case files of None \<Rightarrow> Inr []
    | Some fs \<Rightarrow> if length fs > 0 then upload_files up fs [] else Inr [])
     = upload_files up (file_list files) []"
  by (cases files) (auto simp: file_list_def)

lemma create_accepted:
  assumes wf: "wf_attachments st" and owner: "userId \<in> set (map u_id (users st))"
    and fresh: "''REP-'' @ decimal now0 \<notin> set (map tk_ticketCode (repairTickets st))"
    and valid: "list_all valid_file (file_list files)"
    and keep: "\<not> list_ex (upload_rethrown up) (file_list files)"
  shows "\<exists>t st'. create up now0 now st userId dto files = (Inr t, st')
            \<and> t \<in> set (repairTickets st')
            \<and> length (attachments_of st' (tk_id t))
                = length (filter (uploaded up) (file_list files))"
proof -
  from upload_files_valid [OF valid keep, of "[]"] obtain attachmentData where
    loop: "upload_files up (file_list files) [] = Inr attachmentData"
    and count: "length attachmentData = length (filter (uploaded up) (file_list files))"
    by auto
  define d where "d =
    \<lparr> td_ticketCode = ''REP-'' @ decimal now0,
      td_reporterName = cd_reporterName dto,
      td_reporterDepartment = js_or (cd_reporterDepartment dto) JNull,
      td_reporterPhone = js_or (cd_reporterPhone dto) JNull,
      td_reporterLineId = js_or (cd_reporterLineId dto) JNull,
      td_problemCategory = cd_problemCategory dto,
      td_problemTitle = cd_problemTitle dto,
      td_problemDescription = js_or (cd_problemDescription dto) JNull,
      td_location = cd_location dto,
      td_urgency = js_or (cd_urgency dto) (JStr ''NORMAL''),
      td_userId = userId,
      td_notes = js_or (cd_notes dto) JNull,
      td_scheduledAt = (if truthy (cd_scheduledAt dto) then JDate (cd_scheduledAt dto)
                        else JDate (JNum (int now))),
      td_attachments = attachmentData \<rparr>"
  have run: "create up now0 now st userId dto files = repairTicket_create now d st"
    by (simp add: create_def create_uploads loop d_def)
  have "td_userId d \<in> set (map u_id (users st))"
    and "td_ticketCode d \<notin> set (map tk_ticketCode (repairTickets st))"
    using owner fresh by (simp_all add: d_def)
  from repairTicket_create_accepted [OF this, of now] obtain t st' where
    made: "repairTicket_create now d st = (Inr t, st')"
    and ident: "tk_id t = nextTicketId st"
    and stored: "repairTickets st' = repairTickets st @ [t]"
    and rows: "attachments_of st' (nextTicketId st)
                = attachments_of st (nextTicketId st)
                  @ map (\<lambda>a. \<lparr> at_repairTicketId = nextTicketId st, at_filename = ad_filename a,
                                at_fileUrl = ad_fileUrl a, at_fileSize = ad_fileSize a,
                                at_mimeType = ad_mimeType a \<rparr>) (td_attachments d)"
    by blast
  have "length (attachments_of st' (tk_id t)) = length attachmentData"
    using rows ident attachments_of_fresh [OF wf] by (simp add: d_def)
  with run made stored count show ?thesis
    by auto
qed


lemma create_returns:
  assumes "create up now0 now st userId dto files = (Inr t, st')"
  shows "tk_scheduledAt t = (if truthy (cd_scheduledAt dto) then JDate (cd_scheduledAt dto)
                             else JDate (JNum (int now)))
         \<and> t \<in> set (repairTickets st')"
proof (cases "upload_files up (file_list files) []")
  case (Inl error)
  with assms show ?thesis
    by (simp add: create_def create_uploads)
next
  case (Inr attachmentData)
  with assms repairTicket_create_returns show ?thesis
    by (fastforce simp: create_def create_uploads)
qed

lemma example_db_accepts:
  "wf_attachments example_db" "1 \<in> set (map u_id (users example_db))"
  "''REP-'' @ decimal 1700 \<notin> set (map tk_ticketCode (repairTickets example_db))"
  by (simp_all add: wf_attachments_def example_db_def alice_def bob_def ticket1_def ticket2_def
      decimal_def digit_char_def)


text \<open>The invariant holds in the empty store, and \<open>create\<close> keeps it.\<close>

lemma wf_attachments_empty:
  "wf_attachments \<lparr> users = [], lineOALinks = [], repairTickets = [], attachments = [],
                     repairTicketAssignees = [], nextUserId = 1, nextTicketId = 1 \<rparr>"
  by (simp add: wf_attachments_def)

lemma wf_attachments_repairTicket_create:
  assumes "wf_attachments st"
  shows "wf_attachments (snd (repairTicket_create now d st))"
proof (cases "td_userId d \<in> set (map u_id (users st))
              \<and> td_ticketCode d \<notin> set (map tk_ticketCode (repairTickets st))")
  case False
  then have "snd (repairTicket_create now d st) = st"
    by (auto simp: repairTicket_create_def)
  with assms show ?thesis by simp
next
  case True
  have old: "tk_id t < nextTicketId st" if "t \<in> set (repairTickets st)" for t
    using assms that by (simp add: wf_attachments_def list_all_iff)
  then have ids: "tk_id t < nextTicketId st + 1" if "t \<in> set (repairTickets st)" for t
    using that by fastforce
  have rows: "at_repairTicketId a \<in> tk_id ` set (repairTickets st)"
    if "a \<in> set (attachments st)" for a
    using assms that by (simp add: wf_attachments_def list_all_iff)
  from True ids rows show ?thesis
    by (auto simp: repairTicket_create_def Let_def wf_attachments_def list_all_iff)
qed

lemma wf_attachments_create:
  assumes "wf_attachments st"
  shows "wf_attachments (snd (create up now0 now st userId dto files))"
proof (cases "upload_files up (file_list files) []")
  case (Inl error)
  with assms show ?thesis
    by (simp add: create_def create_uploads)
next
  case (Inr attachmentData)
  with wf_attachments_repairTicket_create [OF assms] show ?thesis
    by (simp add: create_def create_uploads)
qed




text \<open>
  Claim C9. When the request carries no \<open>scheduledAt\<close>, or a falsy one, the ticket that
  \<open>create\<close> persists has the time of the write as \<open>scheduledAt\<close>, never null.
\<close>

theorem create_scheduledAt_default:
  assumes "\<not> truthy (cd_scheduledAt dto)"
    and "create up now0 now st userId dto files = (Inr t, st')"
  shows "tk_scheduledAt t = JDate (JNum (int now)) \<and> tk_scheduledAt t \<noteq> JNull
         \<and> t \<in> set (repairTickets st')"
  using create_returns [OF assms(2)] assms(1) by simp

theorem create_scheduledAt_default_witness:
  "\<not> truthy (cd_scheduledAt example_create_dto)
   \<and> (\<exists>t st'. create example_upload 1700 1701 example_db 1 example_create_dto None = (Inr t, st')
         \<and> tk_scheduledAt t = JDate (JNum 1701) \<and> t \<in> set (repairTickets st'))"
proof -
  have falsy: "\<not> truthy (cd_scheduledAt example_create_dto)"
    by (simp add: example_create_dto_def)
  from create_accepted [OF example_db_accepts, of None example_upload 1701 example_create_dto]
  obtain t st' where
    run: "create example_upload 1700 1701 example_db 1 example_create_dto None = (Inr t, st')"
    by (auto simp: file_list_def)
  from create_scheduledAt_default [OF falsy run] run falsy show ?thesis
    by auto
qed

section \<open>Properties of update\<close>

lemma deleteMany_frame:
  "repairTickets (repairTicketAssignee_deleteMany ident st) = repairTickets st"
  "users (repairTicketAssignee_deleteMany ident st) = users st"
  by (simp_all add: repairTicketAssignee_deleteMany_def)



lemma sync_assignees_frame:
  "repairTickets (snd (sync_assignees ident ids st)) = repairTickets st"
  "users (snd (sync_assignees ident ids st)) = users st"
  by (cases ids; simp add: sync_assignees_def Let_def repairTicketAssignee_createMany_def
      deleteMany_frame)+

lemma sync_assignees_undefined:
  "sync_assignees ident IdsUndefined st = (Inr (), st)"
  by (simp add: sync_assignees_def)











lemma update_Inr_relations:
  assumes "update st ident dto updatedById = (Inr r, st')"
  shows "r = include_relations st' (tr_ticket r)"
  using assms
  by (auto simp: update_def update_try_def Let_def include_relations_def
      split: prod.splits sum.splits if_splits)

lemma include_relations_assignees:
  "map (as_userId \<circ> fst) (tr_assignees (include_relations st t)) = assignees_of st (tk_id t)"
  by (simp add: include_relations_def assignees_of_def comp_def)

lemma find_sync_assignees:
  "ticket_of (snd (sync_assignees ident ids st)) j = ticket_of st j"
  by (simp add: ticket_of_def sync_assignees_frame)

lemma apply_update_data_id: "tk_id (apply_update_data d status t) = tk_id t"
  by (simp add: apply_update_data_def)

lemma repairTicket_update_found:
  assumes "ticket_of st ident = Some old" and "validate_status (upd_status d) = Inr status"
  shows "repairTicket_update ident d st
           = (Inr (apply_update_data d (case status of None \<Rightarrow> tk_status old | Some s \<Rightarrow> s) old),
              st\<lparr> repairTickets :=
                    map (\<lambda>x. if tk_id x = ident
                              then apply_update_data d
                                     (case status of None \<Rightarrow> tk_status old | Some s \<Rightarrow> s) old
                              else x) (repairTickets st) \<rparr>)"
  using assms by (simp add: repairTicket_update_def ticket_of_def Let_def)

lemma repairTicket_update_stored:
  assumes "repairTicket_update ident d st = (Inr t, st')" and "ticket_of st ident = Some old"
  shows "\<exists>status. validate_status (upd_status d) = Inr status
           \<and> t = apply_update_data d (case status of None \<Rightarrow> tk_status old | Some s \<Rightarrow> s) old
           \<and> ticket_of st' ident = Some t"
proof (cases "validate_status (upd_status d)")
  case (Inl error)
  with assms(1) show ?thesis by (simp add: repairTicket_update_def)
next
  case (Inr status)
  let ?t = "apply_update_data d (case status of None \<Rightarrow> tk_status old | Some s \<Rightarrow> s) old"
  have ident: "tk_id old = ident"
    using assms(2) unfolding ticket_of_def by (rule find_Some_key)
  then have key: "tk_id ?t = ident"
    by (simp add: apply_update_data_id)
  from repairTicket_update_found [OF assms(2) Inr] assms(1)
  have t: "t = ?t" and st': "st' = st\<lparr> repairTickets :=
                    map (\<lambda>x. if tk_id x = ident then ?t else x) (repairTickets st) \<rparr>"
    by simp_all
  have "ticket_of st' ident = Some ?t"
    using assms(2) by (simp add: st' ticket_of_def find_replace_by_key [where key = tk_id, OF key])
  with Inr t show ?thesis by simp
qed

lemma update_Inr_ticket:
  assumes "update st ident dto updatedById = (Inr r, st')" and "ticket_of st ident = Some old"
  shows "\<exists>status. validate_status (upd_status (build_updateData dto)) = Inr status
           \<and> tr_ticket r = apply_update_data (build_updateData dto)
                              (case status of None \<Rightarrow> tk_status old | Some s \<Rightarrow> s) old
           \<and> ticket_of st' ident = Some (tr_ticket r)"
proof -
  obtain res st1 where sync: "sync_assignees ident (ud_assigneeIds dto) st = (res, st1)"
    by (cases "sync_assignees ident (ud_assigneeIds dto) st")
  from assms(1) sync obtain t where
    "repairTicket_update ident (build_updateData dto) st1 = (Inr t, st')" "tr_ticket r = t"
    by (auto simp: update_def update_try_def Let_def include_relations_def
        split: prod.splits sum.splits if_splits)
  moreover have "ticket_of st1 ident = Some old"
    using find_sync_assignees [of ident "ud_assigneeIds dto" st ident] sync assms(2) by simp
  ultimately show ?thesis
    using repairTicket_update_stored by blast
qed

lemma update_accepted:
  assumes "ticket_of st ident = Some old"
    and "validate_status (upd_status (build_updateData dto)) = Inr status"
    and "fst (sync_assignees ident (ud_assigneeIds dto) st) = Inr ()"
  shows "\<exists>r st'. update st ident dto updatedById = (Inr r, st')"
proof -
  obtain st1 where sync: "sync_assignees ident (ud_assigneeIds dto) st = (Inr (), st1)"
    using assms(3) by (cases "sync_assignees ident (ud_assigneeIds dto) st") auto
  have "ticket_of st1 ident = Some old"
    using find_sync_assignees [of ident "ud_assigneeIds dto" st ident] sync assms(1) by simp
  from repairTicket_update_found [OF this assms(2)] sync show ?thesis
    by (simp add: update_def update_try_def)
qed


lemma validate_status_cases:
  assumes "validate_status (upd_status (build_updateData dto)) = Inr status"
  shows "if ud_status dto = JUndefined then status = None
         else \<exists>s. status = Some s \<and> status_of_jsval (ud_status dto) = Some s"
proof (cases "ud_status dto = JUndefined")
  case True
  with assms show ?thesis
    by (simp add: validate_status_def build_updateData_def)
next
  case False
  with assms show ?thesis
    by (cases "status_of_jsval (ud_status dto)")
      (auto simp: validate_status_def build_updateData_def)
qed

lemma update_frame:
  assumes "update st ident dto updatedById = (Inr r, st')" and "ticket_of st ident = Some old"
  shows "tk_id (tr_ticket r) = tk_id old \<and> tk_ticketCode (tr_ticket r) = tk_ticketCode old
       \<and> tk_reporterName (tr_ticket r) = tk_reporterName old
       \<and> tk_reporterDepartment (tr_ticket r) = tk_reporterDepartment old
       \<and> tk_reporterPhone (tr_ticket r) = tk_reporterPhone old
       \<and> tk_reporterLineId (tr_ticket r) = tk_reporterLineId old
       \<and> tk_problemCategory (tr_ticket r) = tk_problemCategory old
       \<and> tk_userId (tr_ticket r) = tk_userId old
       \<and> tk_cancelledAt (tr_ticket r) = tk_cancelledAt old
       \<and> tk_createdAt (tr_ticket r) = tk_createdAt old"
proof -
  from update_Inr_ticket [OF assms] obtain status where
    "tr_ticket r = apply_update_data (build_updateData dto)
                     (case status of None \<Rightarrow> tk_status old | Some s \<Rightarrow> s) old"
    by blast
  then show ?thesis
    by (simp add: apply_update_data_def)
qed

lemma example_ticket1: "ticket_of example_db 1 = Some ticket1"
  by (simp add: ticket_of_def example_db_def ticket1_def)





text \<open>
  Claim C2, as amended. After a successful update, of status, notes, problemTitle,
  problemDescription, location and urgency exactly the fields present in the request are
  applied: an absent field leaves the stored value unchanged, and a field supplied as
  explicit null is passed on as null (for status the store takes a value of the enum
  only). \<open>scheduledAt\<close> and \<open>completedAt\<close> are applied only when the supplied value is
  truthy, as the date built from it: absent, null or otherwise falsy, they leave the
  stored value unchanged.
\<close>

theorem update_applies_present_fields:
  assumes "update st ident dto updatedById = (Inr r, st')" and "ticket_of st ident = Some old"
  shows "ticket_of st' ident = Some (tr_ticket r)
       \<and> (if ud_status dto = JUndefined then tk_status (tr_ticket r) = tk_status old
          else status_of_jsval (ud_status dto) = Some (tk_status (tr_ticket r)))
       \<and> tk_notes (tr_ticket r)
           = (if ud_notes dto = JUndefined then tk_notes old else ud_notes dto)
       \<and> tk_problemTitle (tr_ticket r)
           = (if ud_problemTitle dto = JUndefined then tk_problemTitle old
              else ud_problemTitle dto)
       \<and> tk_problemDescription (tr_ticket r)
           = (if ud_problemDescription dto = JUndefined then tk_problemDescription old
              else ud_problemDescription dto)
       \<and> tk_location (tr_ticket r)
           = (if ud_location dto = JUndefined then tk_location old else ud_location dto)
       \<and> tk_urgency (tr_ticket r)
           = (if ud_urgency dto = JUndefined then tk_urgency old else ud_urgency dto)
       \<and> tk_scheduledAt (tr_ticket r)
           = (if truthy (ud_scheduledAt dto) then JDate (ud_scheduledAt dto)
              else tk_scheduledAt old)
       \<and> tk_completedAt (tr_ticket r)
           = (if truthy (ud_completedAt dto) then JDate (ud_completedAt dto)
              else tk_completedAt old)"
proof -
  from update_Inr_ticket [OF assms] obtain status where
    status: "validate_status (upd_status (build_updateData dto)) = Inr status"
    and new: "tr_ticket r = apply_update_data (build_updateData dto)
                              (case status of None \<Rightarrow> tk_status old | Some s \<Rightarrow> s) old"
    and stored: "ticket_of st' ident = Some (tr_ticket r)"
    by blast
  have "tk_status (tr_ticket r) = (case status of None \<Rightarrow> tk_status old | Some s \<Rightarrow> s)"
    by (simp add: new apply_update_data_def)
  with validate_status_cases [OF status]
  have st: "if ud_status dto = JUndefined then tk_status (tr_ticket r) = tk_status old
            else status_of_jsval (ud_status dto) = Some (tk_status (tr_ticket r))"
    by (auto split: if_splits)
  have cols:
    "tk_notes (tr_ticket r) = (if ud_notes dto = JUndefined then tk_notes old else ud_notes dto)"
    "tk_problemTitle (tr_ticket r)
       = (if ud_problemTitle dto = JUndefined then tk_problemTitle old else ud_problemTitle dto)"
    "tk_problemDescription (tr_ticket r)
       = (if ud_problemDescription dto = JUndefined then tk_problemDescription old
          else ud_problemDescription dto)"
    "tk_location (tr_ticket r)
       = (if ud_location dto = JUndefined then tk_location old else ud_location dto)"
    "tk_urgency (tr_ticket r)
       = (if ud_urgency dto = JUndefined then tk_urgency old else ud_urgency dto)"
    "tk_scheduledAt (tr_ticket r)
       = (if truthy (ud_scheduledAt dto) then JDate (ud_scheduledAt dto) else tk_scheduledAt old)"
    "tk_completedAt (tr_ticket r)
       = (if truthy (ud_completedAt dto) then JDate (ud_completedAt dto) else tk_completedAt old)"
    by (simp_all add: new apply_update_data_def build_updateData_def set_column_def)
  from stored st cols show ?thesis by blast
qed

theorem update_applies_present_fields_witness:
  "ticket_of example_db 1 = Some ticket1
   \<and> (\<exists>r st'. update example_db 1
                 (empty_update_dto\<lparr> ud_status := JStr ''COMPLETED'', ud_notes := JNull,
                                    ud_scheduledAt := JNull \<rparr>) 2 = (Inr r, st')
         \<and> ticket_of st' 1 = Some (tr_ticket r)
         \<and> tk_status (tr_ticket r) = COMPLETED
         \<and> tk_notes (tr_ticket r) = JNull
         \<and> tk_location (tr_ticket r) = JStr ''Room 1''
         \<and> tk_scheduledAt (tr_ticket r) = JDate (JNum 100))"
proof -
  let ?dto = "empty_update_dto\<lparr> ud_status := JStr ''COMPLETED'', ud_notes := JNull,
                                ud_scheduledAt := JNull \<rparr>"
  have valid: "validate_status (upd_status (build_updateData ?dto)) = Inr (Some COMPLETED)"
    by (simp add: validate_status_def build_updateData_def status_of_jsval_def
        empty_update_dto_def)
  have sync: "fst (sync_assignees 1 (ud_assigneeIds ?dto) example_db) = Inr ()"
    by (simp add: empty_update_dto_def sync_assignees_undefined)
  from update_accepted [OF example_ticket1 valid sync, of 2] obtain r st' where
    run: "update example_db 1 ?dto 2 = (Inr r, st')"
    by blast
  have dto: "ud_status ?dto = JStr ''COMPLETED''" "ud_notes ?dto = JNull"
    "ud_location ?dto = JUndefined" "ud_scheduledAt ?dto = JNull"
    by (simp_all add: empty_update_dto_def)
  from update_applies_present_fields [OF run example_ticket1]
  have "ticket_of st' 1 = Some (tr_ticket r)"
    "status_of_jsval (JStr ''COMPLETED'') = Some (tk_status (tr_ticket r))"
    "tk_notes (tr_ticket r) = JNull"
    "tk_location (tr_ticket r) = tk_location ticket1"
    "tk_scheduledAt (tr_ticket r) = tk_scheduledAt ticket1"
    by (simp_all add: dto)
  then have "ticket_of st' 1 = Some (tr_ticket r)"
    "tk_status (tr_ticket r) = COMPLETED"
    "tk_notes (tr_ticket r) = JNull"
    "tk_location (tr_ticket r) = JStr ''Room 1''"
    "tk_scheduledAt (tr_ticket r) = JDate (JNum 100)"
    by (simp_all add: status_of_jsval_def ticket1_def)
  with run example_ticket1 show ?thesis by blast
qed

text \<open>
  Claim C2 as stated fails for the two dates: they are guarded by the truthiness of the
  value, not by its presence, so an explicit null for \<open>scheduledAt\<close> is not applied and
  the stored date stays.
\<close>

theorem update_null_scheduledAt_counterexample:
  "ud_scheduledAt (empty_update_dto\<lparr> ud_scheduledAt := JNull \<rparr>) = JNull
   \<and> map_option tk_scheduledAt (ticket_of example_db 1) = Some (JDate (JNum 100))
   \<and> \<not> isl (fst (update example_db 1 (empty_update_dto\<lparr> ud_scheduledAt := JNull \<rparr>) 2))
   \<and> map_option tk_scheduledAt
        (ticket_of (snd (update example_db 1 (empty_update_dto\<lparr> ud_scheduledAt := JNull \<rparr>) 2)) 1)
       = Some (JDate (JNum 100))"
proof -
  let ?dto = "empty_update_dto\<lparr> ud_scheduledAt := JNull \<rparr>"
  have valid: "validate_status (upd_status (build_updateData ?dto)) = Inr None"
    by (simp add: validate_status_def build_updateData_def empty_update_dto_def)
  have sync: "fst (sync_assignees 1 (ud_assigneeIds ?dto) example_db) = Inr ()"
    by (simp add: empty_update_dto_def sync_assignees_undefined)
  from update_accepted [OF example_ticket1 valid sync, of 2] obtain r st' where
    run: "update example_db 1 ?dto 2 = (Inr r, st')"
    by blast
  from update_Inr_ticket [OF run example_ticket1] valid
  have "ticket_of st' 1 = Some (tr_ticket r)"
    "tr_ticket r = apply_update_data (build_updateData ?dto) (tk_status ticket1) ticket1"
    by auto
  then have "map_option tk_scheduledAt (ticket_of st' 1) = Some (JDate (JNum 100))"
    by (simp add: apply_update_data_def build_updateData_def set_column_def
        empty_update_dto_def ticket1_def)
  moreover have "ud_scheduledAt ?dto = JNull"
    by (simp add: empty_update_dto_def)
  moreover have "map_option tk_scheduledAt (ticket_of example_db 1) = Some (JDate (JNum 100))"
    by (simp add: example_ticket1 ticket1_def)
  ultimately show ?thesis
    using run by simp
qed

end
